theory Spec2Isabelle
  imports Complex_Main "HOL-Library.AList"
begin

section \<open>Loosely typed values and the strconv conversions\<close>

text \<open>
  A Go \<^verbatim>\<open>interface{}\<close> value as it occurs in request metadata, card fields and event
  data. \<open>JNull\<close> is the nil interface (a missing map key reads as nil too), \<open>JNumber\<close> a
  \<^verbatim>\<open>float64\<close> (what encoding/json decodes a number to; the model keeps its exact rational
  value), \<open>JInt\<close> a Go \<^verbatim>\<open>int\<close>, and \<open>JUnsupported\<close> any value that
  \<^verbatim>\<open>json.Marshal\<close> rejects.
\<close>

datatype jvalue =
    JNull
  | JBool bool
  | JNumber rat
  | JString string
  | JInt int
  | JArray "jvalue list"
  | JObject "(string \<times> jvalue) list"
  | JUnsupported

type_synonym jmap = "(string \<times> jvalue) list"

text \<open>What \<^verbatim>\<open>%T\<close> prints for a value (used by the error messages of the card path).\<close>

fun type_name :: "jvalue \<Rightarrow> string" where
  "type_name JNull = ''<nil>''"
| "type_name (JBool b) = ''bool''"
| "type_name (JNumber r) = ''float64''"
| "type_name (JString s) = ''string''"
| "type_name (JInt i) = ''int''"
| "type_name (JArray xs) = ''[]interface {}''"
| "type_name (JObject kvs) = ''map[string]interface {}''"
| "type_name JUnsupported = ''unsupported''"

text \<open>\<^verbatim>\<open>m[k]\<close> on a Go map: nil when the key is absent.\<close>

definition index :: "jmap \<Rightarrow> string \<Rightarrow> jvalue" where
  "index m k = (case map_of m k of None \<Rightarrow> JNull | Some v \<Rightarrow> v)"

text \<open>\<^verbatim>\<open>s, _ := v.(string)\<close>: the empty string unless the value is a string.\<close>

fun as_string :: "jvalue \<Rightarrow> string" where
  "as_string (JString s) = s"
| "as_string v = []"

definition digit_char :: "nat \<Rightarrow> char" where
  "digit_char d = ''0123456789'' ! (d mod 10)"

definition digit_val :: "char \<Rightarrow> nat option" where
  "digit_val c = map_of
     [(CHR ''0'', 0), (CHR ''1'', 1), (CHR ''2'', 2), (CHR ''3'', 3), (CHR ''4'', 4),
      (CHR ''5'', 5), (CHR ''6'', 6), (CHR ''7'', 7), (CHR ''8'', 8), (CHR ''9'', 9)] c"

text \<open>\<^verbatim>\<open>fmt.Sprintf("%d", u)\<close> for an unsigned value.\<close>

fun FormatUint :: "nat \<Rightarrow> string" where
  "FormatUint n =
     (if n < 10 then [digit_char n] else FormatUint (n div 10) @ [digit_char (n mod 10)])"

declare FormatUint.simps [simp del]

text \<open>\<^verbatim>\<open>strconv.Itoa\<close>.\<close>

definition Itoa :: "int \<Rightarrow> string" where
  "Itoa i = (if i < 0 then CHR ''-'' # FormatUint (nat (- i)) else FormatUint (nat i))"

fun parse_digits :: "nat \<Rightarrow> string \<Rightarrow> nat option" where
  "parse_digits acc [] = Some acc"
| "parse_digits acc (c # cs) =
     (case digit_val c of None \<Rightarrow> None | Some d \<Rightarrow> parse_digits (10 * acc + d) cs)"

text \<open>
  \<^verbatim>\<open>strconv.ParseUint(s, 10, bitSize)\<close>: \<open>None\<close> stands for any error (empty input, a
  character that is not a decimal digit, a value of \<open>2 ^ bitSize\<close> or more).
\<close>

definition ParseUint :: "string \<Rightarrow> nat \<Rightarrow> nat option" where
  "ParseUint s bitSize =
     (if s = [] then None
      else case parse_digits 0 s of
             None \<Rightarrow> None
           | Some n \<Rightarrow> if n < 2 ^ bitSize then Some n else None)"

text \<open>\<^verbatim>\<open>strconv.Atoi\<close> on a 64-bit platform: an optional sign, then decimal digits.\<close>

definition Atoi :: "string \<Rightarrow> int option" where
  "Atoi s =
     (case s of
        [] \<Rightarrow> None
      | c # cs \<Rightarrow>
          (let neg = (c = CHR ''-'');
               ds = (if c = CHR ''-'' \<or> c = CHR ''+'' then cs else s)
           in if ds = [] then None
              else case parse_digits 0 ds of
                     None \<Rightarrow> None
                   | Some n \<Rightarrow>
                       (let v = (if neg then - int n else int n)
                        in if - (2 ^ 63) \<le> v \<and> v < 2 ^ 63 then Some v else None)))"

text \<open>
  The conversions \<^verbatim>\<open>int(v)\<close> and \<^verbatim>\<open>uint(v)\<close> of a \<^verbatim>\<open>float64\<close> truncate towards zero.
  Go leaves the result open when the truncated value does not fit the target type; the
  model keeps the truncated value for \<^verbatim>\<open>int\<close> and reduces it modulo \<open>2 ^ 64\<close> for
  \<^verbatim>\<open>uint\<close>, as it does for the conversion of a signed \<^verbatim>\<open>int\<close>.
\<close>

definition float64_to_int :: "rat \<Rightarrow> int" where
  "float64_to_int r = (if 0 \<le> r then \<lfloor>r\<rfloor> else \<lceil>r\<rceil>)"

definition int_to_uint :: "int \<Rightarrow> nat" where
  "int_to_uint i = nat (i mod 2 ^ 64)"

definition float64_to_uint :: "rat \<Rightarrow> nat" where
  "float64_to_uint r = int_to_uint (float64_to_int r)"

section \<open>The gateway client\<close>

record Source =
  src_ID :: string
  src_Type :: string

record Token =
  tok_ID :: string

record Charge =
  ch_ID :: string
  ch_Amount :: int
  ch_Currency :: string
  ch_Status :: string
  ch_FailureCode :: "string option"
  ch_FailureMessage :: "string option"
  ch_Source :: "Source option"
  ch_Metadata :: "jmap option"

record Event =
  ev_Key :: string
  ev_Data :: jvalue

record operations_CreateToken =
  ct_Name :: string
  ct_Number :: string
  ct_ExpirationMonth :: int
  ct_ExpirationYear :: int
  ct_SecurityCode :: string

record operations_CreateSource =
  cs_Type :: string
  cs_Amount :: int
  cs_Currency :: string

record operations_CreateCharge =
  cc_Amount :: int
  cc_Currency :: string
  cc_Card :: string
  cc_Source :: string
  cc_ReturnURI :: string
  cc_Description :: string
  cc_Metadata :: "jmap option"

text \<open>The operations a handler can hand to \<^verbatim>\<open>Client.Do\<close>; a handler's calls are recorded in order.\<close>

datatype operation =
    DoCreateToken operations_CreateToken
  | DoCreateSource operations_CreateSource
  | DoCreateCharge operations_CreateCharge
  | DoRetrieveEvent string
  | DoRetrieveCharge string

text \<open>
  The remote gateway during one request: what \<^verbatim>\<open>Client.Do\<close> answers to each operation,
  \<open>Inl\<close> carrying the text of the error it returns.
\<close>

record omise_Client =
  CreateToken :: "operations_CreateToken \<Rightarrow> string + Token"
  CreateSource :: "operations_CreateSource \<Rightarrow> string + Source"
  CreateChargeOp :: "operations_CreateCharge \<Rightarrow> string + Charge"
  RetrieveEvent :: "string \<Rightarrow> string + Event"
  RetrieveCharge :: "string \<Rightarrow> string + Charge"

section \<open>Charge requests and the errors of dispatch\<close>

text \<open>
  \<open>PaymentRequest\<close> is the request of \<^verbatim>\<open>main.go\<close>; the request of the \<^verbatim>\<open>models\<close>
  package has the same fields and the optional user id.
\<close>

record PaymentRequest =
  req_Amount :: int
  req_Currency :: string
  req_PaymentType :: string
  req_Token :: string
  req_ReturnURI :: string
  req_Description :: string
  req_Metadata :: "jmap option"
  req_Card :: "jmap option"
  req_Bank :: string

record models_PaymentRequest = PaymentRequest +
  req_UserID :: "nat option"

datatype error =
    MissingToken
  | MissingTokenTestOnly
  | InvalidExpirationMonth string
  | InvalidExpirationYear string
  | UnexpectedType string jvalue
  | CreateTokenFailed string
  | PromptPaySourceFailed string
  | BankRequired
  | ReturnURIRequired
  | InternetBankingSourceFailed string
  | GatewayError string
  | NilCharge
  | StorageError string

text \<open>
  The errors that report a request the caller must fix, raised before the request is
  sent anywhere.
\<close>

fun is_validation_error :: "error \<Rightarrow> bool" where
  "is_validation_error MissingToken = True"
| "is_validation_error MissingTokenTestOnly = True"
| "is_validation_error (InvalidExpirationMonth v) = True"
| "is_validation_error (InvalidExpirationYear v) = True"
| "is_validation_error (UnexpectedType f v) = True"
| "is_validation_error BankRequired = True"
| "is_validation_error ReturnURIRequired = True"
| "is_validation_error e = False"

text \<open>\<^verbatim>\<open>err.Error()\<close>.\<close>

fun Error :: "error \<Rightarrow> string" where
  "Error MissingToken = ''missing token; either provide token or card for tokenization''"
| "Error MissingTokenTestOnly =
     ''missing token; either provide token or card for test-only tokenization''"
| "Error (InvalidExpirationMonth v) = ''invalid expiration_month: '' @ v"
| "Error (InvalidExpirationYear v) = ''invalid expiration_year: '' @ v"
| "Error (UnexpectedType f v) = ''unexpected type for '' @ f @ '': '' @ type_name v"
| "Error (CreateTokenFailed e) = ''failed to create token: '' @ e"
| "Error (PromptPaySourceFailed e) = ''failed to create promptpay source: '' @ e"
| "Error BankRequired =
     ''bank is required for internet_banking (e.g. \"bay\", \"bbl\", \"scb\")''"
| "Error ReturnURIRequired = ''return_uri is required for internet_banking''"
| "Error (InternetBankingSourceFailed e) = ''failed to create internet banking source: '' @ e"
| "Error (GatewayError e) = e"
| "Error NilCharge = ''nil charge''"
| "Error (StorageError e) = e"

section \<open>Dispatch in \<^verbatim>\<open>main.go\<close>\<close>

text \<open>
  Every function of this section returns its result together with the gateway operations
  it issued, in order.
\<close>

definition createCharge ::
  "omise_Client \<Rightarrow> operations_CreateCharge \<Rightarrow> (error + Charge) \<times> operation list" where
  "createCharge client op =
     (case CreateChargeOp client op of
        Inl e \<Rightarrow> (Inl (GatewayError e), [DoCreateCharge op])
      | Inr ch \<Rightarrow> (Inr ch, [DoCreateCharge op]))"

text \<open>
  The three type switches of the card path: expiry month and year as a number or a
  decimal string, the security code as a string or a number.
\<close>

definition card_expiration_month :: "jmap \<Rightarrow> error + int" where
  "card_expiration_month crd =
     (case index crd ''expiration_month'' of
        JNumber v \<Rightarrow> Inr (float64_to_int v)
      | JString v \<Rightarrow> (case Atoi v of None \<Rightarrow> Inl (InvalidExpirationMonth v) | Some n \<Rightarrow> Inr n)
      | v \<Rightarrow> Inl (UnexpectedType ''expiration_month'' v))"

definition card_expiration_year :: "jmap \<Rightarrow> error + int" where
  "card_expiration_year crd =
     (case index crd ''expiration_year'' of
        JNumber v \<Rightarrow> Inr (float64_to_int v)
      | JString v \<Rightarrow> (case Atoi v of None \<Rightarrow> Inl (InvalidExpirationYear v) | Some n \<Rightarrow> Inr n)
      | v \<Rightarrow> Inl (UnexpectedType ''expiration_year'' v))"

definition card_security_code :: "jmap \<Rightarrow> error + string" where
  "card_security_code crd =
     (case index crd ''security_code'' of
        JString v \<Rightarrow> Inr v
      | JNumber v \<Rightarrow> Inr (Itoa (float64_to_int v))
      | v \<Rightarrow> Inl (UnexpectedType ''security_code'' v))"

text \<open>
  Server-side tokenization followed by the charge: the tail shared by the two card paths,
  which differ in the message for a missing card and in the metadata they submit.
\<close>

definition tokenize_and_charge ::
  "omise_Client \<Rightarrow> 'a PaymentRequest_scheme \<Rightarrow> jmap \<Rightarrow> jmap option
     \<Rightarrow> (error + Charge) \<times> operation list" where
  "tokenize_and_charge client req crd metadata =
     (let name = as_string (index crd ''name'');
          number = as_string (index crd ''number'')
      in case card_expiration_month crd of
           Inl e \<Rightarrow> (Inl e, [])
         | Inr expMonth \<Rightarrow>
        (case card_expiration_year crd of
           Inl e \<Rightarrow> (Inl e, [])
         | Inr expYear \<Rightarrow>
        (case card_security_code crd of
           Inl e \<Rightarrow> (Inl e, [])
         | Inr securityCode \<Rightarrow>
        (let tokenOp = \<lparr>ct_Name = name, ct_Number = number, ct_ExpirationMonth = expMonth,
                        ct_ExpirationYear = expYear, ct_SecurityCode = securityCode\<rparr>
         in case CreateToken client tokenOp of
              Inl e \<Rightarrow> (Inl (CreateTokenFailed e), [DoCreateToken tokenOp])
            | Inr token \<Rightarrow>
                (let (r, ops) = createCharge client
                       \<lparr>cc_Amount = req_Amount req, cc_Currency = req_Currency req,
                        cc_Card = tok_ID token, cc_Source = [],
                        cc_ReturnURI = req_ReturnURI req,
                        cc_Description = req_Description req, cc_Metadata = metadata\<rparr>
                 in (r, DoCreateToken tokenOp # ops))))))"

definition processCreditCard ::
  "omise_Client \<Rightarrow> 'a PaymentRequest_scheme \<Rightarrow> (error + Charge) \<times> operation list" where
  "processCreditCard client req =
     (if req_Token req \<noteq> [] then
        createCharge client
          \<lparr>cc_Amount = req_Amount req, cc_Currency = req_Currency req,
           cc_Card = req_Token req, cc_Source = [], cc_ReturnURI = req_ReturnURI req,
           cc_Description = req_Description req, cc_Metadata = req_Metadata req\<rparr>
      else case req_Card req of
             None \<Rightarrow> (Inl MissingTokenTestOnly, [])
           | Some crd \<Rightarrow> tokenize_and_charge client req crd (req_Metadata req))"

definition processPromptPay ::
  "omise_Client \<Rightarrow> 'a PaymentRequest_scheme \<Rightarrow> (error + Charge) \<times> operation list" where
  "processPromptPay client req =
     (let srcOp = \<lparr>cs_Type = ''promptpay'', cs_Amount = req_Amount req,
                   cs_Currency = req_Currency req\<rparr>
      in case CreateSource client srcOp of
           Inl e \<Rightarrow> (Inl (PromptPaySourceFailed e), [DoCreateSource srcOp])
         | Inr src \<Rightarrow>
             (let (r, ops) = createCharge client
                    \<lparr>cc_Amount = req_Amount req, cc_Currency = req_Currency req,
                     cc_Card = [], cc_Source = src_ID src, cc_ReturnURI = [],
                     cc_Description = req_Description req, cc_Metadata = req_Metadata req\<rparr>
              in (r, DoCreateSource srcOp # ops)))"

definition processInternetBanking ::
  "omise_Client \<Rightarrow> 'a PaymentRequest_scheme \<Rightarrow> (error + Charge) \<times> operation list" where
  "processInternetBanking client req =
     (if req_Bank req = [] then (Inl BankRequired, [])
      else if req_ReturnURI req = [] then (Inl ReturnURIRequired, [])
      else
        (let srcOp = \<lparr>cs_Type = ''internet_banking_'' @ req_Bank req,
                      cs_Amount = req_Amount req, cs_Currency = req_Currency req\<rparr>
         in case CreateSource client srcOp of
              Inl e \<Rightarrow> (Inl (InternetBankingSourceFailed e), [DoCreateSource srcOp])
            | Inr src \<Rightarrow>
                (let (r, ops) = createCharge client
                       \<lparr>cc_Amount = req_Amount req, cc_Currency = req_Currency req,
                        cc_Card = [], cc_Source = src_ID src,
                        cc_ReturnURI = req_ReturnURI req,
                        cc_Description = req_Description req,
                        cc_Metadata = req_Metadata req\<rparr>
                 in (r, DoCreateSource srcOp # ops))))"

text \<open>
  The answer of an HTTP handler: the status and what the body carries.
\<close>

datatype body =
    NoBody
  | Text string
  | JSONError string
  | JSONCharge Charge

record response =
  status :: nat
  content :: body

text \<open>
  The \<^verbatim>\<open>/charge\<close> handler of \<^verbatim>\<open>main.go\<close>. The request carries its method and what
  decoding its body gives (\<open>Inl\<close> the decoder's error).
\<close>

record http_Request =
  Method :: string
  Decoded :: "string + PaymentRequest"

definition charge_handler ::
  "omise_Client \<Rightarrow> http_Request \<Rightarrow> response \<times> operation list" where
  "charge_handler client r =
     (if Method r = ''OPTIONS'' then (\<lparr>status = 200, content = NoBody\<rparr>, [])
      else if Method r \<noteq> ''POST'' then
        (\<lparr>status = 405, content = Text ''Method not allowed''\<rparr>, [])
      else case Decoded r of
             Inl e \<Rightarrow> (\<lparr>status = 400, content = JSONError (''Invalid request: '' @ e)\<rparr>, [])
           | Inr req \<Rightarrow>
               if req_Amount req \<le> 0 \<or> req_Currency req = [] then
                 (\<lparr>status = 400, content = JSONError ''amount and currency are required''\<rparr>, [])
               else
                 (case (if req_PaymentType req = ''credit_card'' then
                          Some (processCreditCard client req)
                        else if req_PaymentType req = ''promptpay'' then
                          Some (processPromptPay client req)
                        else if req_PaymentType req = ''internet_banking'' then
                          Some (processInternetBanking client req)
                        else None) of
                    None \<Rightarrow>
                      (\<lparr>status = 400,
                        content = JSONError (''unsupported paymentType: '' @ req_PaymentType req)\<rparr>,
                       [])
                  | Some (Inl perr, ops) \<Rightarrow>
                      (\<lparr>status = 500, content = JSONError (Error perr)\<rparr>, ops)
                  | Some (Inr charge, ops) \<Rightarrow>
                      (\<lparr>status = 200, content = JSONCharge charge\<rparr>, ops)))"

section \<open>Dispatch in the \<^verbatim>\<open>handlers\<close> package\<close>

text \<open>
  The block at the head of each of the three process functions:
  \<^verbatim>\<open>metadata := req.Metadata; if req.UserID != nil { ...; metadata["user_id"] = fmt.Sprintf("%d", *req.UserID) }\<close>.
\<close>

definition user_metadata :: "models_PaymentRequest \<Rightarrow> jmap option" where
  "user_metadata req =
     (case req_UserID req of
        None \<Rightarrow> req_Metadata req
      | Some u \<Rightarrow>
          Some (AList.update ''user_id'' (JString (FormatUint u))
                  (case req_Metadata req of None \<Rightarrow> [] | Some m \<Rightarrow> m)))"

definition PaymentHandler_processCreditCard ::
  "omise_Client \<Rightarrow> models_PaymentRequest \<Rightarrow> (error + Charge) \<times> operation list" where
  "PaymentHandler_processCreditCard client req =
     (let metadata = user_metadata req
      in if req_Token req \<noteq> [] then
           createCharge client
             \<lparr>cc_Amount = req_Amount req, cc_Currency = req_Currency req,
              cc_Card = req_Token req, cc_Source = [], cc_ReturnURI = req_ReturnURI req,
              cc_Description = req_Description req, cc_Metadata = metadata\<rparr>
         else case req_Card req of
                None \<Rightarrow> (Inl MissingToken, [])
              | Some crd \<Rightarrow> tokenize_and_charge client req crd metadata)"

definition PaymentHandler_processPromptPay ::
  "omise_Client \<Rightarrow> models_PaymentRequest \<Rightarrow> (error + Charge) \<times> operation list" where
  "PaymentHandler_processPromptPay client req =
     (let metadata = user_metadata req;
          srcOp = \<lparr>cs_Type = ''promptpay'', cs_Amount = req_Amount req,
                   cs_Currency = req_Currency req\<rparr>
      in case CreateSource client srcOp of
           Inl e \<Rightarrow> (Inl (PromptPaySourceFailed e), [DoCreateSource srcOp])
         | Inr src \<Rightarrow>
             (let (r, ops) = createCharge client
                    \<lparr>cc_Amount = req_Amount req, cc_Currency = req_Currency req,
                     cc_Card = [], cc_Source = src_ID src, cc_ReturnURI = [],
                     cc_Description = req_Description req, cc_Metadata = metadata\<rparr>
              in (r, DoCreateSource srcOp # ops)))"

definition PaymentHandler_processInternetBanking ::
  "omise_Client \<Rightarrow> models_PaymentRequest \<Rightarrow> (error + Charge) \<times> operation list" where
  "PaymentHandler_processInternetBanking client req =
     (if req_Bank req = [] then (Inl BankRequired, [])
      else if req_ReturnURI req = [] then (Inl ReturnURIRequired, [])
      else
        (let metadata = user_metadata req;
             srcOp = \<lparr>cs_Type = ''internet_banking_'' @ req_Bank req,
                      cs_Amount = req_Amount req, cs_Currency = req_Currency req\<rparr>
         in case CreateSource client srcOp of
              Inl e \<Rightarrow> (Inl (InternetBankingSourceFailed e), [DoCreateSource srcOp])
            | Inr src \<Rightarrow>
                (let (r, ops) = createCharge client
                       \<lparr>cc_Amount = req_Amount req, cc_Currency = req_Currency req,
                        cc_Card = [], cc_Source = src_ID src,
                        cc_ReturnURI = req_ReturnURI req,
                        cc_Description = req_Description req, cc_Metadata = metadata\<rparr>
                 in (r, DoCreateSource srcOp # ops))))"

section \<open>The ledger\<close>

record Transaction =
  tx_ID :: nat
  tx_CreatedAt :: nat
  tx_UpdatedAt :: nat
  tx_DeletedAt :: "nat option"
  tx_UserID :: "nat option"
  tx_ChargeID :: string
  tx_AmountSatang :: int
  tx_Currency :: string
  tx_Channel :: string
  tx_Status :: string
  tx_FailureCode :: "string option"
  tx_FailureMessage :: "string option"
  tx_RawPayload :: "Charge option"
  tx_Meta :: "jmap option"

text \<open>One line per \<^verbatim>\<open>log.Printf\<close> site, carrying the values it prints.\<close>

datatype log_line =
    Log_Failed_to_save_transaction error
  | Log_Failed_to_update_user_balance string
  | Log_webhook_verify_event_failed string string
  | Log_webhook_marshal_failed string string
  | Log_webhook_retrieve_charge_failed string string
  | Log_webhook_upsert_failed string error
  | Log_webhook_processed Charge
  | Log_Webhook_event_verification_failed string string
  | Log_Webhook_marshal_failed string
  | Log_Webhook_unexpected_event_data string jvalue
  | Log_Webhook_retrieve_charge_failed string string
  | Log_Failed_to_upsert_transaction error
  | Log_Webhook_charge Charge

text \<open>
  What a request can change: the rows of the \<^verbatim>\<open>transactions\<close> table in insertion order,
  the last surrogate id issued, the \<^verbatim>\<open>balance\<close> column of the \<^verbatim>\<open>users\<close> table (the one
  field of a user the handlers touch; amounts are exact rationals in the model), the
  gateway operations issued so far and the log.
\<close>

record world =
  transactions :: "Transaction list"
  transactions_seq :: nat
  users :: "nat \<rightharpoonup> rat"
  calls :: "operation list"
  logs :: "log_line list"

text \<open>
  The storage engine during one request: the error, if any, that the insert-or-update
  and the balance update return, and the clock that stamps rows. A statement that
  returns an error changes nothing.
\<close>

record gorm_DB =
  db_Create_Error :: "string option"
  db_Update_Error :: "string option"
  db_Now :: nat

record PaymentHandler =
  DB :: gorm_DB
  Client :: omise_Client

text \<open>
  \<^verbatim>\<open>Clauses(clause.OnConflict{Columns: charge_id, DoUpdates: ...}).Create(&transaction)\<close>:
  a row with the same charge id takes the ten listed columns from the new row; otherwise
  the new row is inserted with a fresh id and both timestamps. The id sequence advances
  on every attempt.
\<close>

definition Create_OnConflict :: "nat \<Rightarrow> Transaction \<Rightarrow> world \<Rightarrow> world" where
  "Create_OnConflict now t w =
     (if tx_ChargeID t \<in> set (map tx_ChargeID (transactions w)) then
        w\<lparr>transactions :=
             map (\<lambda>r. if tx_ChargeID r = tx_ChargeID t then
                         r\<lparr>tx_Status := tx_Status t,
                           tx_FailureCode := tx_FailureCode t,
                           tx_FailureMessage := tx_FailureMessage t,
                           tx_AmountSatang := tx_AmountSatang t,
                           tx_Currency := tx_Currency t,
                           tx_Channel := tx_Channel t,
                           tx_RawPayload := tx_RawPayload t,
                           tx_Meta := tx_Meta t,
                           tx_UpdatedAt := now,
                           tx_UserID := tx_UserID t\<rparr>
                       else r)
               (transactions w),
          transactions_seq := Suc (transactions_seq w)\<rparr>
      else
        w\<lparr>transactions :=
             transactions w @
               [t\<lparr>tx_ID := Suc (transactions_seq w), tx_CreatedAt := now, tx_UpdatedAt := now\<rparr>],
          transactions_seq := Suc (transactions_seq w)\<rparr>)"

text \<open>
  \<^verbatim>\<open>Model(&models.User{}).Where("id = ?", id).Update("balance", gorm.Expr("balance + ?", amountTHB))\<close>:
  no row is touched when the user does not exist.
\<close>

definition Update_balance :: "nat \<Rightarrow> rat \<Rightarrow> world \<Rightarrow> world" where
  "Update_balance userID amountTHB w =
     (case users w userID of
        None \<Rightarrow> w
      | Some b \<Rightarrow> w\<lparr>users := (users w)(userID \<mapsto> b + amountTHB)\<rparr>)"

fun marshalable :: "jvalue \<Rightarrow> bool" where
  "marshalable JUnsupported = False"
| "marshalable (JArray xs) = list_all marshalable xs"
| "marshalable (JObject kvs) = list_all marshalable (map snd kvs)"
| "marshalable v = True"

text \<open>
  \<^verbatim>\<open>rawPayload, _ := json.Marshal(charge)\<close>: the bytes are represented by the snapshot they
  encode; when encoding fails the error is dropped and the payload stays empty.
\<close>

definition marshal_charge :: "Charge \<Rightarrow> Charge option" where
  "marshal_charge charge =
     (case ch_Metadata charge of
        None \<Rightarrow> Some charge
      | Some m \<Rightarrow> if list_all marshalable (map snd m) then Some charge else None)"

definition extractUserIDFromCharge :: "Charge option \<Rightarrow> nat option \<Rightarrow> nat option" where
  "extractUserIDFromCharge charge userID =
     (case userID of
        Some u \<Rightarrow> userID
      | None \<Rightarrow>
     (case charge of
        None \<Rightarrow> userID
      | Some ch \<Rightarrow>
     (case ch_Metadata ch of
        None \<Rightarrow> userID
      | Some m \<Rightarrow>
     (case map_of m ''user_id'' of
        None \<Rightarrow> userID
      | Some v \<Rightarrow>
     (case v of
        JString vv \<Rightarrow> (case ParseUint vv 32 of Some n \<Rightarrow> Some n | None \<Rightarrow> userID)
      | JNumber vv \<Rightarrow> Some (float64_to_uint vv)
      | JInt vv \<Rightarrow> Some (int_to_uint vv)
      | _ \<Rightarrow> userID)))))"

definition determineChannel :: "Charge option \<Rightarrow> string" where
  "determineChannel charge =
     (case charge of
        None \<Rightarrow> ''card''
      | Some ch \<Rightarrow>
          (case ch_Source ch of
             None \<Rightarrow> ''card''
           | Some src \<Rightarrow> if src_Type src \<noteq> [] then src_Type src else ''card''))"

definition upsertTransactionFromCharge ::
  "PaymentHandler \<Rightarrow> Charge option \<Rightarrow> nat option \<Rightarrow> world \<Rightarrow> error option \<times> world" where
  "upsertTransactionFromCharge h charge userID w =
     (case charge of
        None \<Rightarrow> (Some NilCharge, w)
      | Some ch \<Rightarrow>
          (let userID' = extractUserIDFromCharge charge userID;
               channel = determineChannel charge;
               transaction =
                 \<lparr>tx_ID = 0, tx_CreatedAt = 0, tx_UpdatedAt = 0, tx_DeletedAt = None,
                  tx_UserID = userID', tx_ChargeID = ch_ID ch,
                  tx_AmountSatang = ch_Amount ch, tx_Currency = ch_Currency ch,
                  tx_Channel = channel, tx_Status = ch_Status ch,
                  tx_FailureCode = ch_FailureCode ch,
                  tx_FailureMessage = ch_FailureMessage ch,
                  tx_RawPayload = marshal_charge ch, tx_Meta = ch_Metadata ch\<rparr>
           in case db_Create_Error (DB h) of
                Some e \<Rightarrow> (Some (StorageError e), w)
              | None \<Rightarrow>
                  (let w1 = Create_OnConflict (db_Now (DB h)) transaction w
                   in if ch_Status ch = ''successful'' then
                        (case userID' of
                           None \<Rightarrow> (None, w1)
                         | Some u \<Rightarrow>
                             (case db_Update_Error (DB h) of
                                Some e \<Rightarrow>
                                  (None, w1\<lparr>logs := logs w1 @ [Log_Failed_to_update_user_balance e]\<rparr>)
                              | None \<Rightarrow>
                                  (None, Update_balance u (of_int (ch_Amount ch) / 100) w1)))
                      else (None, w1))))"

section \<open>The charge endpoint of the \<^verbatim>\<open>handlers\<close> package\<close>

text \<open>
  What the handler reads from the request context: the outcome of \<^verbatim>\<open>BodyParser\<close>
  (\<open>Inl\<close> its error), the \<^verbatim>\<open>X-User-ID\<close> header and the \<^verbatim>\<open>user_id\<close> query parameter (empty
  when absent).
\<close>

record fiber_Ctx =
  ctx_BodyParser :: "string + models_PaymentRequest"
  ctx_X_User_ID :: string
  ctx_Query_user_id :: string

definition getUserIDFromRequest :: "fiber_Ctx \<Rightarrow> models_PaymentRequest \<Rightarrow> nat option" where
  "getUserIDFromRequest c req =
     (case req_UserID req of
        Some u \<Rightarrow> Some u
      | None \<Rightarrow>
          (case (if ctx_X_User_ID c \<noteq> [] then ParseUint (ctx_X_User_ID c) 32 else None) of
             Some u \<Rightarrow> Some u
           | None \<Rightarrow>
               (if ctx_Query_user_id c \<noteq> [] then ParseUint (ctx_Query_user_id c) 32 else None)))"

text \<open>
  The switch on \<^verbatim>\<open>req.PaymentType\<close> in \<^verbatim>\<open>CreateCharge\<close>; \<open>None\<close> is its default branch.
\<close>

definition Dispatch ::
  "omise_Client \<Rightarrow> models_PaymentRequest \<Rightarrow> ((error + Charge) \<times> operation list) option" where
  "Dispatch cl req =
     (if req_PaymentType req = ''credit_card'' then
        Some (PaymentHandler_processCreditCard cl req)
      else if req_PaymentType req = ''promptpay'' then
        Some (PaymentHandler_processPromptPay cl req)
      else if req_PaymentType req = ''internet_banking'' then
        Some (PaymentHandler_processInternetBanking cl req)
      else None)"

definition CreateCharge :: "PaymentHandler \<Rightarrow> fiber_Ctx \<Rightarrow> world \<Rightarrow> response \<times> world" where
  "CreateCharge h c w =
     (case ctx_BodyParser c of
        Inl e \<Rightarrow> (\<lparr>status = 400, content = JSONError (''Invalid request: '' @ e)\<rparr>, w)
      | Inr req \<Rightarrow>
          if req_Amount req \<le> 0 \<or> req_Currency req = [] then
            (\<lparr>status = 400, content = JSONError ''amount and currency are required''\<rparr>, w)
          else
            (let userID = getUserIDFromRequest c req
             in case Dispatch (Client h) req of
                  None \<Rightarrow>
                    (\<lparr>status = 400,
                      content = JSONError (''unsupported paymentType: '' @ req_PaymentType req)\<rparr>,
                     w)
                | Some (Inl err, ops) \<Rightarrow>
                    (\<lparr>status = 500, content = JSONError (Error err)\<rparr>,
                     w\<lparr>calls := calls w @ ops\<rparr>)
                | Some (Inr charge, ops) \<Rightarrow>
                    (case upsertTransactionFromCharge h (Some charge) userID
                            (w\<lparr>calls := calls w @ ops\<rparr>) of
                       (Some err, w') \<Rightarrow>
                         (\<lparr>status = 200, content = JSONCharge charge\<rparr>,
                          w'\<lparr>logs := logs w' @ [Log_Failed_to_save_transaction err]\<rparr>)
                     | (None, w') \<Rightarrow> (\<lparr>status = 200, content = JSONCharge charge\<rparr>, w'))))"

section \<open>Webhook payloads\<close>

text \<open>
  The bytes of a request body, or of \<^verbatim>\<open>json.Marshal\<close>'s output, represented by what they
  parse to; \<open>Malformed\<close> stands for bytes that are not JSON.
\<close>

datatype payload = Malformed | Json jvalue

text \<open>
  How \<^verbatim>\<open>encoding/json\<close> matches the key of an object member with the name of a struct
  field: the exact name, or else any spelling that differs in letter case only. The
  field names of the handlers are \<^verbatim>\<open>id\<close> and \<^verbatim>\<open>object\<close>; none of their letters has a
  case variant outside ASCII, so folding the letters \<^verbatim>\<open>A\<close> to \<^verbatim>\<open>Z\<close> decides the match.
\<close>

definition ascii_lower :: "char \<Rightarrow> char" where
  "ascii_lower c =
     (case map_of (zip ''ABCDEFGHIJKLMNOPQRSTUVWXYZ'' ''abcdefghijklmnopqrstuvwxyz'') c of
        None \<Rightarrow> c
      | Some l \<Rightarrow> l)"

definition equal_fold :: "string \<Rightarrow> string \<Rightarrow> bool" where
  "equal_fold a b \<longleftrightarrow> map ascii_lower a = map ascii_lower b"

text \<open>
  \<^verbatim>\<open>json.Unmarshal\<close> into a struct field of type string tagged with the key: each member
  whose key matches is decoded in turn, a string replaces the field, a null leaves it,
  any other value is a type error (\<open>None\<close>).
\<close>

fun string_field :: "string \<Rightarrow> jmap \<Rightarrow> string \<Rightarrow> string option" where
  "string_field k [] cur = Some cur"
| "string_field k ((k', v) # kvs) cur =
     (if equal_fold k' k then
        (case v of
           JString s \<Rightarrow> string_field k kvs s
         | JNull \<Rightarrow> string_field k kvs cur
         | _ \<Rightarrow> None)
      else string_field k kvs cur)"

text \<open>Decoding into \<^verbatim>\<open>struct { ID string `json:"id"` }\<close>.\<close>

definition unmarshal_ID :: "payload \<Rightarrow> string option" where
  "unmarshal_ID p =
     (case p of
        Malformed \<Rightarrow> None
      | Json JNull \<Rightarrow> Some []
      | Json (JObject kvs) \<Rightarrow> string_field ''id'' kvs []
      | Json _ \<Rightarrow> None)"

text \<open>
  Decoding into a struct with the two string fields \<^verbatim>\<open>id\<close> and \<^verbatim>\<open>object\<close>: the envelope
  of \<^verbatim>\<open>PaymentHandler.HandleWebhook\<close> and the embedded object of an event.
\<close>

record object_ref =
  ref_ID :: string
  ref_Object :: string

definition unmarshal_ref :: "payload \<Rightarrow> object_ref option" where
  "unmarshal_ref p =
     (case p of
        Malformed \<Rightarrow> None
      | Json JNull \<Rightarrow> Some \<lparr>ref_ID = [], ref_Object = []\<rparr>
      | Json (JObject kvs) \<Rightarrow>
          (case string_field ''id'' kvs [] of
             None \<Rightarrow> None
           | Some i \<Rightarrow>
               (case string_field ''object'' kvs [] of
                  None \<Rightarrow> None
                | Some ob \<Rightarrow> Some \<lparr>ref_ID = i, ref_Object = ob\<rparr>))
      | Json _ \<Rightarrow> None)"

text \<open>\<^verbatim>\<open>json.Marshal(ev.Data)\<close>: \<open>Inl\<close> the encoder's error.\<close>

definition json_Marshal :: "jvalue \<Rightarrow> string + payload" where
  "json_Marshal v = (if marshalable v then Inr (Json v) else Inl ''json: unsupported value'')"

section \<open>\<^verbatim>\<open>PaymentHandler.HandleWebhook\<close>: event or charge payloads\<close>

text \<open>
  The handler whose envelope has the fields \<^verbatim>\<open>object\<close> and \<^verbatim>\<open>id\<close> (lines 121 to 182 of
  \<^verbatim>\<open>webhook_handler.go\<close>); it calls \<^verbatim>\<open>upsertTransactionFromCharge\<close> with no known user.
  Below, \<^verbatim>\<open>PaymentHandler.HandleWebhook\<close> is always this handler.
\<close>

text \<open>
  The part after the switch on the envelope's object: retrieve the charge from the
  gateway, upsert it, answer.
\<close>

definition retrieve_and_upsert ::
  "PaymentHandler \<Rightarrow> string \<Rightarrow> world \<Rightarrow> response \<times> world" where
  "retrieve_and_upsert h chargeID w =
     (let w0 = w\<lparr>calls := calls w @ [DoRetrieveCharge chargeID]\<rparr>
      in case RetrieveCharge (Client h) chargeID of
           Inl err \<Rightarrow>
             (\<lparr>status = 500, content = NoBody\<rparr>,
              w0\<lparr>logs := logs w0 @ [Log_webhook_retrieve_charge_failed chargeID err]\<rparr>)
         | Inr ch \<Rightarrow>
             (case upsertTransactionFromCharge h (Some ch) None w0 of
                (Some err, w1) \<Rightarrow>
                  (\<lparr>status = 500, content = NoBody\<rparr>,
                   w1\<lparr>logs := logs w1 @ [Log_webhook_upsert_failed (ch_ID ch) err]\<rparr>)
              | (None, w1) \<Rightarrow>
                  (\<lparr>status = 200, content = NoBody\<rparr>,
                   w1\<lparr>logs := logs w1 @ [Log_webhook_processed ch]\<rparr>)))"

definition HandleWebhook :: "PaymentHandler \<Rightarrow> payload \<Rightarrow> world \<Rightarrow> response \<times> world" where
  "HandleWebhook h body w =
     (case unmarshal_ref body of
        None \<Rightarrow>
          (\<lparr>status = 400, content = JSONError ''invalid payload: missing object or id''\<rparr>, w)
      | Some envelope \<Rightarrow>
          if ref_ID envelope = [] then
            (\<lparr>status = 400, content = JSONError ''invalid payload: missing object or id''\<rparr>, w)
          else if ref_Object envelope = ''event'' then
            (let w0 = w\<lparr>calls := calls w @ [DoRetrieveEvent (ref_ID envelope)]\<rparr>
             in case RetrieveEvent (Client h) (ref_ID envelope) of
                  Inl err \<Rightarrow>
                    (\<lparr>status = 500, content = NoBody\<rparr>,
                     w0\<lparr>logs := logs w0 @
                          [Log_webhook_verify_event_failed (ref_ID envelope) err]\<rparr>)
                | Inr ev \<Rightarrow>
                    (case json_Marshal (ev_Data ev) of
                       Inl err \<Rightarrow>
                         (\<lparr>status = 500, content = NoBody\<rparr>,
                          w0\<lparr>logs := logs w0 @
                               [Log_webhook_marshal_failed (ref_ID envelope) err]\<rparr>)
                     | Inr raw \<Rightarrow>
                         (case unmarshal_ref raw of
                            None \<Rightarrow> (\<lparr>status = 200, content = NoBody\<rparr>, w0)
                          | Some embedded \<Rightarrow>
                              if ref_Object embedded = ''charge'' \<and> ref_ID embedded \<noteq> [] then
                                retrieve_and_upsert h (ref_ID embedded) w0
                              else (\<lparr>status = 200, content = NoBody\<rparr>, w0))))
          else if ref_Object envelope = ''charge'' then
            retrieve_and_upsert h (ref_ID envelope) w
          else (\<lparr>status = 200, content = NoBody\<rparr>, w))"

section \<open>\<^verbatim>\<open>WebhookHandler.HandleWebhook\<close>: event payloads, filtered by key\<close>

text \<open>
  The \<^verbatim>\<open>net/http\<close> handler (lines 27 to 90 of \<^verbatim>\<open>webhook_handler.go\<close>). It holds the gateway
  client and an upserter behind an interface; the upserter is free to change the world
  and to fail. A handler that returns without writing a status answers 200.
\<close>

record WebhookHandler =
  client :: omise_Client
  dbHandler :: "Charge \<Rightarrow> world \<Rightarrow> error option \<times> world"

text \<open>The request: its method and its body (\<open>None\<close> when reading the body fails).\<close>

record webhook_Request =
  wr_Method :: string
  wr_Body :: "payload option"

definition charge_event_keys :: "string list" where
  "charge_event_keys =
     [''charge.complete'', ''charge.capture'', ''charge.failed'', ''charge.expired'',
      ''charge.reversed'']"

definition WebhookHandler_HandleWebhook ::
  "WebhookHandler \<Rightarrow> webhook_Request \<Rightarrow> world \<Rightarrow> response \<times> world" where
  "WebhookHandler_HandleWebhook h r w =
     (if wr_Method r \<noteq> ''POST'' then
        (\<lparr>status = 405, content = Text ''method not allowed''\<rparr>, w)
      else case wr_Body r of
        None \<Rightarrow> (\<lparr>status = 400, content = Text ''failed to read body''\<rparr>, w)
      | Some body \<Rightarrow>
     (case unmarshal_ID body of
        None \<Rightarrow> (\<lparr>status = 400, content = Text ''invalid payload: missing event id''\<rparr>, w)
      | Some envelope_ID \<Rightarrow>
          if envelope_ID = [] then
            (\<lparr>status = 400, content = Text ''invalid payload: missing event id''\<rparr>, w)
          else
            (let w0 = w\<lparr>calls := calls w @ [DoRetrieveEvent envelope_ID]\<rparr>
             in case RetrieveEvent (client h) envelope_ID of
                  Inl err \<Rightarrow>
                    (\<lparr>status = 400, content = Text ''event verification failed''\<rparr>,
                     w0\<lparr>logs := logs w0 @
                          [Log_Webhook_event_verification_failed envelope_ID err]\<rparr>)
                | Inr ev \<Rightarrow>
                    if ev_Key ev \<in> set charge_event_keys then
                      (case json_Marshal (ev_Data ev) of
                         Inl err \<Rightarrow>
                           (\<lparr>status = 200, content = NoBody\<rparr>,
                            w0\<lparr>logs := logs w0 @ [Log_Webhook_marshal_failed err]\<rparr>)
                       | Inr raw \<Rightarrow>
                           (case (case unmarshal_ref raw of
                                    None \<Rightarrow> None
                                  | Some d \<Rightarrow>
                                      if ref_Object d = ''charge'' \<and> ref_ID d \<noteq> [] then Some d
                                      else None) of
                              None \<Rightarrow>
                                (\<lparr>status = 200, content = NoBody\<rparr>,
                                 w0\<lparr>logs := logs w0 @
                                      [Log_Webhook_unexpected_event_data (ev_Key ev)
                                         (ev_Data ev)]\<rparr>)
                            | Some d \<Rightarrow>
                                (let w1 = w0\<lparr>calls := calls w0 @ [DoRetrieveCharge (ref_ID d)]\<rparr>
                                 in case RetrieveCharge (client h) (ref_ID d) of
                                      Inl err \<Rightarrow>
                                        (\<lparr>status = 200, content = NoBody\<rparr>,
                                         w1\<lparr>logs := logs w1 @
                                              [Log_Webhook_retrieve_charge_failed (ref_ID d) err]\<rparr>)
                                    | Inr ch \<Rightarrow>
                                        (case dbHandler h ch w1 of
                                           (Some err, w2) \<Rightarrow>
                                             (\<lparr>status = 200, content = NoBody\<rparr>,
                                              w2\<lparr>logs := logs w2 @
                                                   [Log_Failed_to_upsert_transaction err,
                                                    Log_Webhook_charge ch]\<rparr>)
                                         | (None, w2) \<Rightarrow>
                                             (\<lparr>status = 200, content = NoBody\<rparr>,
                                              w2\<lparr>logs := logs w2 @ [Log_Webhook_charge ch]\<rparr>)))))
                    else (\<lparr>status = 200, content = NoBody\<rparr>, w0))))"

section \<open>Scenarios\<close>

text \<open>A gateway that accepts every operation, and one that is unreachable.\<close>

definition sample_charge :: Charge where
  "sample_charge =
     \<lparr>ch_ID = ''chrg_1'', ch_Amount = 5000, ch_Currency = ''THB'', ch_Status = ''successful'',
      ch_FailureCode = None, ch_FailureMessage = None, ch_Source = None,
      ch_Metadata = Some [(''user_id'', JString ''1'')]\<rparr>"

definition sample_event :: Event where
  "sample_event =
     \<lparr>ev_Key = ''charge.complete'',
      ev_Data = JObject [(''object'', JString ''charge''), (''id'', JString ''chrg_1'')]\<rparr>"

definition sample_client :: omise_Client where
  "sample_client =
     \<lparr>CreateToken = (\<lambda>op. Inr \<lparr>tok_ID = ''tokn_1''\<rparr>),
      CreateSource = (\<lambda>op. Inr \<lparr>src_ID = ''src_1'', src_Type = cs_Type op\<rparr>),
      CreateChargeOp = (\<lambda>op. Inr
         \<lparr>ch_ID = ''chrg_1'', ch_Amount = cc_Amount op, ch_Currency = cc_Currency op,
          ch_Status = ''pending'', ch_FailureCode = None, ch_FailureMessage = None,
          ch_Source = None, ch_Metadata = cc_Metadata op\<rparr>),
      RetrieveEvent = (\<lambda>i. Inr sample_event),
      RetrieveCharge = (\<lambda>i. Inr sample_charge)\<rparr>"

definition unreachable_client :: omise_Client where
  "unreachable_client =
     \<lparr>CreateToken = (\<lambda>op. Inl ''timeout''),
      CreateSource = (\<lambda>op. Inl ''timeout''),
      CreateChargeOp = (\<lambda>op. Inl ''timeout''),
      RetrieveEvent = (\<lambda>i. Inl ''timeout''),
      RetrieveCharge = (\<lambda>i. Inl ''timeout'')\<rparr>"

definition sample_request :: models_PaymentRequest where
  "sample_request =
     \<lparr>req_Amount = 10000, req_Currency = ''THB'', req_PaymentType = ''internet_banking'',
      req_Token = [], req_ReturnURI = ''https://example.com/return'', req_Description = [],
      req_Metadata = None, req_Card = None, req_Bank = ''scb'', req_UserID = Some 1\<rparr>"

definition sample_main_request :: PaymentRequest where
  "sample_main_request =
     \<lparr>req_Amount = 10000, req_Currency = ''THB'', req_PaymentType = ''internet_banking'',
      req_Token = [], req_ReturnURI = ''https://example.com/return'', req_Description = [],
      req_Metadata = None, req_Card = None, req_Bank = ''scb''\<rparr>"

definition sample_handler :: PaymentHandler where
  "sample_handler =
     \<lparr>DB = \<lparr>db_Create_Error = None, db_Update_Error = None, db_Now = 7\<rparr>,
      Client = sample_client\<rparr>"

text \<open>An empty ledger and one user, with id 1 and balance 0.\<close>

definition sample_world :: world where
  "sample_world =
     \<lparr>transactions = [], transactions_seq = 0, users = [1 \<mapsto> 0], calls = [], logs = []\<rparr>"

definition unsupported_request :: models_PaymentRequest where
  "unsupported_request = sample_request\<lparr>req_PaymentType := ''bitcoin''\<rparr>"

definition unsupported_main_request :: http_Request where
  "unsupported_main_request =
     \<lparr>Method = ''POST'', Decoded = Inr (sample_main_request\<lparr>req_PaymentType := ''bitcoin''\<rparr>)\<rparr>"

definition ctx_of :: "models_PaymentRequest \<Rightarrow> fiber_Ctx" where
  "ctx_of req = \<lparr>ctx_BodyParser = Inr req, ctx_X_User_ID = [], ctx_Query_user_id = []\<rparr>"

definition failing_DB :: gorm_DB where
  "failing_DB =
     \<lparr>db_Create_Error = Some ''connection refused'', db_Update_Error = None, db_Now = 7\<rparr>"

section \<open>Observations of a charge\<close>

text \<open>The rows of the ledger that carry a charge id.\<close>

definition rows_of :: "string \<Rightarrow> world \<Rightarrow> Transaction list" where
  "rows_of chargeID w = filter (\<lambda>r. tx_ChargeID r = chargeID) (transactions w)"

text \<open>
  A sequence of upserts, each with the handler (gateway and storage outcome) of its
  request, the charge observed and the user id the caller knows.
\<close>

fun upserts :: "(PaymentHandler \<times> Charge option \<times> nat option) list \<Rightarrow> world \<Rightarrow> world" where
  "upserts [] w = w"
| "upserts ((h, charge, userID) # obs) w =
     upserts obs (snd (upsertTransactionFromCharge h charge userID w))"

text \<open>The row holds the snapshot in every column the conflict clause updates from it.\<close>

definition mirrors :: "Transaction \<Rightarrow> Charge \<Rightarrow> bool" where
  "mirrors row ch \<longleftrightarrow>
     tx_ChargeID row = ch_ID ch \<and> tx_Status row = ch_Status ch \<and>
     tx_FailureCode row = ch_FailureCode ch \<and>
     tx_FailureMessage row = ch_FailureMessage ch \<and>
     tx_AmountSatang row = ch_Amount ch \<and> tx_Currency row = ch_Currency ch \<and>
     tx_Channel row = determineChannel (Some ch) \<and>
     tx_RawPayload row = marshal_charge ch \<and> tx_Meta row = ch_Metadata ch"

definition stored :: "Charge \<Rightarrow> world \<Rightarrow> bool" where
  "stored ch w \<longleftrightarrow> (\<exists>row. rows_of (ch_ID ch) w = [row] \<and> mirrors row ch)"

text \<open>The \<^verbatim>\<open>models.Transaction\<close> literal that \<^verbatim>\<open>upsertTransactionFromCharge\<close> builds.\<close>

definition snapshot_row :: "Charge \<Rightarrow> nat option \<Rightarrow> Transaction" where
  "snapshot_row ch userID =
     \<lparr>tx_ID = 0, tx_CreatedAt = 0, tx_UpdatedAt = 0, tx_DeletedAt = None,
      tx_UserID = extractUserIDFromCharge (Some ch) userID, tx_ChargeID = ch_ID ch,
      tx_AmountSatang = ch_Amount ch, tx_Currency = ch_Currency ch,
      tx_Channel = determineChannel (Some ch), tx_Status = ch_Status ch,
      tx_FailureCode = ch_FailureCode ch, tx_FailureMessage = ch_FailureMessage ch,
      tx_RawPayload = marshal_charge ch, tx_Meta = ch_Metadata ch\<rparr>"

definition second_delivery_handler :: PaymentHandler where
  "second_delivery_handler =
     \<lparr>DB = \<lparr>db_Create_Error = None, db_Update_Error = None, db_Now = 9\<rparr>,
      Client = sample_client\<rparr>"

definition balance_failing_handler :: PaymentHandler where
  "balance_failing_handler =
     \<lparr>DB = \<lparr>db_Create_Error = None, db_Update_Error = Some ''deadlock'', db_Now = 7\<rparr>,
      Client = sample_client\<rparr>"

definition event_body :: payload where
  "event_body = Json (JObject [(''id'', JString ''evt_1''), (''object'', JString ''event'')])"

definition charge_body :: payload where
  "charge_body = Json (JObject [(''object'', JString ''charge''), (''id'', JString ''chrg_1'')])"

section \<open>Notions used by the statements\<close>

text \<open>
  A gateway operation carries the user id when, being the creation of a charge, its
  metadata maps \<^verbatim>\<open>user_id\<close> to the decimal rendering of the id.
\<close>

definition carries_user_id :: "nat \<Rightarrow> operation \<Rightarrow> bool" where
  "carries_user_id u op =
     (case op of
        DoCreateCharge cc \<Rightarrow>
          (case cc_Metadata cc of
             None \<Rightarrow> False
           | Some m \<Rightarrow> map_of m ''user_id'' = Some (JString (FormatUint u)))
      | _ \<Rightarrow> True)"

definition charge_submitted :: "operation list \<Rightarrow> bool" where
  "charge_submitted ops = list_ex (\<lambda>op. case op of DoCreateCharge cc \<Rightarrow> True | _ \<Rightarrow> False) ops"



text \<open>The gateway answers an operation with an error.\<close>

fun gateway_fails :: "omise_Client \<Rightarrow> operation \<Rightarrow> bool" where
  "gateway_fails cl (DoCreateToken op) = isl (CreateToken cl op)"
| "gateway_fails cl (DoCreateSource op) = isl (CreateSource cl op)"
| "gateway_fails cl (DoCreateCharge op) = isl (CreateChargeOp cl op)"
| "gateway_fails cl (DoRetrieveEvent i) = isl (RetrieveEvent cl i)"
| "gateway_fails cl (DoRetrieveCharge i) = isl (RetrieveCharge cl i)"

text \<open>The gateway operations a request added to the record of calls.\<close>

definition issued :: "world \<Rightarrow> world \<Rightarrow> operation list" where
  "issued w w' = drop (length (calls w)) (calls w')"

text \<open>
  The test both webhook handlers apply to the data of a verified event: it decodes to
  an object of type \<^verbatim>\<open>charge\<close> with a non-empty id.
\<close>

definition charge_shaped :: "jvalue \<Rightarrow> bool" where
  "charge_shaped v =
     (case unmarshal_ref (Json v) of
        None \<Rightarrow> False
      | Some d \<Rightarrow> ref_Object d = ''charge'' \<and> ref_ID d \<noteq> [])"

text \<open>Further scenarios: events, gateways and webhook requests.\<close>

definition create_event :: Event where
  "create_event =
     \<lparr>ev_Key = ''charge.create'',
      ev_Data = JObject [(''object'', JString ''charge''), (''id'', JString ''chrg_1'')]\<rparr>"

definition refund_event :: Event where
  "refund_event =
     \<lparr>ev_Key = ''refund.create'',
      ev_Data = JObject [(''object'', JString ''refund''), (''id'', JString ''rfnd_1'')]\<rparr>"

definition client_returning :: "Event \<Rightarrow> omise_Client" where
  "client_returning ev = sample_client\<lparr>RetrieveEvent := (\<lambda>i. Inr ev)\<rparr>"

definition charge_unreachable_client :: omise_Client where
  "charge_unreachable_client = sample_client\<lparr>RetrieveCharge := (\<lambda>i. Inl ''timeout'')\<rparr>"

definition handler_with :: "omise_Client \<Rightarrow> PaymentHandler" where
  "handler_with cl = sample_handler\<lparr>Client := cl\<rparr>"

definition webhook_handler_with :: "omise_Client \<Rightarrow> WebhookHandler" where
  "webhook_handler_with cl =
     \<lparr>client = cl, dbHandler = (\<lambda>ch. upsertTransactionFromCharge sample_handler (Some ch) None)\<rparr>"

definition event_members :: jmap where
  "event_members = [(''id'', JString ''evt_1''), (''object'', JString ''event'')]"

definition forged_event_members :: jmap where
  "forged_event_members =
     [(''id'', JString ''evt_1''), (''object'', JString ''event''),
      (''status'', JString ''failed''), (''amount'', JNumber 1)]"

definition refund_body :: payload where
  "refund_body = Json (JObject [(''object'', JString ''refund''), (''id'', JString ''chrg_1'')])"

definition webhook_request :: webhook_Request where
  "webhook_request = \<lparr>wr_Method = ''POST'', wr_Body = Some event_body\<rparr>"

text \<open>
  A PromptPay request whose body has no user id, sent with the header
  \<^verbatim>\<open>X-User-ID: 1\<close>, and the charge the sample gateway creates for it.
\<close>

definition header_request :: models_PaymentRequest where
  "header_request = sample_request\<lparr>req_PaymentType := ''promptpay'', req_UserID := None\<rparr>"

definition header_ctx :: fiber_Ctx where
  "header_ctx =
     \<lparr>ctx_BodyParser = Inr header_request, ctx_X_User_ID = ''1'', ctx_Query_user_id = []\<rparr>"

definition header_charge :: Charge where
  "header_charge =
     \<lparr>ch_ID = ''chrg_1'', ch_Amount = 10000, ch_Currency = ''THB'', ch_Status = ''pending'',
      ch_FailureCode = None, ch_FailureMessage = None, ch_Source = None, ch_Metadata = None\<rparr>"

section \<open>Dispatch: validation before any gateway call\<close>

text \<open>
  C6. An internet banking request without a bank code or without a return address
  fails in both \<^verbatim>\<open>processInternetBanking\<close> functions (the method of \<^verbatim>\<open>PaymentHandler\<close> and
  the function of \<^verbatim>\<open>main.go\<close>) with a validation error, and the list of gateway
  operations issued is empty: neither a source nor a charge is created.
\<close>

theorem C6_internet_banking_preconditions:
  assumes "req_Bank req = [] \<or> req_ReturnURI req = []"
    and "req_Bank mreq = [] \<or> req_ReturnURI mreq = []"
  shows "(\<exists>e. is_validation_error e \<and>
            PaymentHandler_processInternetBanking cl req = (Inl e, [])) \<and>
         (\<exists>e. is_validation_error e \<and> processInternetBanking cl' mreq = (Inl e, []))"
  using assms
  by (auto simp: PaymentHandler_processInternetBanking_def processInternetBanking_def)

theorem C6_internet_banking_preconditions_witness:
  "(req_Bank (sample_request\<lparr>req_Bank := []\<rparr>) = [] \<or>
      req_ReturnURI (sample_request\<lparr>req_Bank := []\<rparr>) = []) \<and>
   (req_Bank (sample_main_request\<lparr>req_ReturnURI := []\<rparr>) = [] \<or>
      req_ReturnURI (sample_main_request\<lparr>req_ReturnURI := []\<rparr>) = []) \<and>
   PaymentHandler_processInternetBanking sample_client (sample_request\<lparr>req_Bank := []\<rparr>)
     = (Inl BankRequired, []) \<and>
   processInternetBanking sample_client (sample_main_request\<lparr>req_ReturnURI := []\<rparr>)
     = (Inl ReturnURIRequired, [])"
  using C6_internet_banking_preconditions
    [where req = "sample_request\<lparr>req_Bank := []\<rparr>"
       and mreq = "sample_main_request\<lparr>req_ReturnURI := []\<rparr>"
       and cl = sample_client and cl' = sample_client]
  by (simp add: sample_request_def sample_main_request_def
      PaymentHandler_processInternetBanking_def processInternetBanking_def)

text \<open>
  C10. A request whose payment type is none of \<^verbatim>\<open>credit_card\<close>, \<^verbatim>\<open>promptpay\<close>,
  \<^verbatim>\<open>internet_banking\<close> is answered with status 400 by \<^verbatim>\<open>PaymentHandler.CreateCharge\<close>
  and by the \<^verbatim>\<open>/charge\<close> handler of \<^verbatim>\<open>main.go\<close>; the world is returned as it was (no
  gateway operation, no ledger row, no log line). When the request has a positive amount
  and a currency, as every charge request has, the error names the unsupported type;
  otherwise the earlier check of amount and currency has already answered 400.
\<close>

theorem C10_unsupported_payment_type:
  assumes "req_PaymentType req \<notin> {''credit_card'', ''promptpay'', ''internet_banking''}"
    and "ctx_BodyParser c = Inr req"
    and "req_PaymentType mreq \<notin> {''credit_card'', ''promptpay'', ''internet_banking''}"
    and "Method r = ''POST''" and "Decoded r = Inr mreq"
  shows "status (fst (CreateCharge h c w)) = 400 \<and> snd (CreateCharge h c w) = w \<and>
         (0 < req_Amount req \<and> req_Currency req \<noteq> [] \<longrightarrow>
            content (fst (CreateCharge h c w)) =
              JSONError (''unsupported paymentType: '' @ req_PaymentType req)) \<and>
         status (fst (charge_handler cl r)) = 400 \<and> snd (charge_handler cl r) = [] \<and>
         (0 < req_Amount mreq \<and> req_Currency mreq \<noteq> [] \<longrightarrow>
            content (fst (charge_handler cl r)) =
              JSONError (''unsupported paymentType: '' @ req_PaymentType mreq))"
  using assms
  by (auto simp: CreateCharge_def Dispatch_def charge_handler_def)

theorem C10_unsupported_payment_type_witness:
  "req_PaymentType unsupported_request \<notin> {''credit_card'', ''promptpay'', ''internet_banking''} \<and>
   0 < req_Amount unsupported_request \<and> req_Currency unsupported_request \<noteq> [] \<and>
   CreateCharge sample_handler (ctx_of unsupported_request) sample_world =
     (\<lparr>status = 400, content = JSONError ''unsupported paymentType: bitcoin''\<rparr>, sample_world) \<and>
   charge_handler sample_client unsupported_main_request =
     (\<lparr>status = 400, content = JSONError ''unsupported paymentType: bitcoin''\<rparr>, [])"
  using C10_unsupported_payment_type
    [where req = unsupported_request and c = "ctx_of unsupported_request"
       and mreq = "sample_main_request\<lparr>req_PaymentType := ''bitcoin''\<rparr>"
       and r = unsupported_main_request and h = sample_handler and w = sample_world
       and cl = sample_client]
  by (simp add: unsupported_request_def unsupported_main_request_def ctx_of_def
      sample_request_def sample_main_request_def CreateCharge_def Dispatch_def
      charge_handler_def)

section \<open>The charge endpoint and the ledger\<close>

text \<open>
  C7. When the request is well formed and the gateway has created the charge, the
  answer of \<^verbatim>\<open>CreateCharge\<close> is status 200 with that charge, whatever the storage engine
  does. When the ledger write fails, the world only gains the gateway operations and
  one log line carrying the storage error: no row is written and nothing is returned
  to the caller about it.
\<close>

theorem C7_response_ignores_ledger_failure:
  assumes "ctx_BodyParser c = Inr req"
    and "0 < req_Amount req" and "req_Currency req \<noteq> []"
    and "Dispatch (Client h) req = Some (Inr charge, ops)"
  shows "fst (CreateCharge (h\<lparr>DB := d\<rparr>) c w) = \<lparr>status = 200, content = JSONCharge charge\<rparr> \<and>
         (db_Create_Error d = Some e \<longrightarrow>
            snd (CreateCharge (h\<lparr>DB := d\<rparr>) c w) =
              w\<lparr>calls := calls w @ ops,
                logs := logs w @ [Log_Failed_to_save_transaction (StorageError e)]\<rparr>)"
  using assms
  by (auto simp: CreateCharge_def upsertTransactionFromCharge_def Let_def
      split: option.splits prod.splits)

theorem C7_response_ignores_ledger_failure_witness:
  "0 < req_Amount sample_request \<and> req_Currency sample_request \<noteq> [] \<and>
   db_Create_Error failing_DB = Some ''connection refused'' \<and>
   fst (CreateCharge (sample_handler\<lparr>DB := failing_DB\<rparr>) (ctx_of sample_request) sample_world) =
     \<lparr>status = 200,
      content = JSONCharge
        \<lparr>ch_ID = ''chrg_1'', ch_Amount = 10000, ch_Currency = ''THB'', ch_Status = ''pending'',
         ch_FailureCode = None, ch_FailureMessage = None, ch_Source = None,
         ch_Metadata = Some [(''user_id'', JString ''1'')]\<rparr>\<rparr> \<and>
   transactions
     (snd (CreateCharge (sample_handler\<lparr>DB := failing_DB\<rparr>) (ctx_of sample_request)
        sample_world)) = [] \<and>
   logs
     (snd (CreateCharge (sample_handler\<lparr>DB := failing_DB\<rparr>) (ctx_of sample_request)
        sample_world)) =
     [Log_Failed_to_save_transaction (StorageError ''connection refused'')]"
proof -
  have d: "Dispatch (Client sample_handler) sample_request =
      Some (Inr \<lparr>ch_ID = ''chrg_1'', ch_Amount = 10000, ch_Currency = ''THB'',
                 ch_Status = ''pending'', ch_FailureCode = None, ch_FailureMessage = None,
                 ch_Source = None, ch_Metadata = Some [(''user_id'', JString ''1'')]\<rparr>,
            [DoCreateSource
               \<lparr>cs_Type = ''internet_banking_scb'', cs_Amount = 10000, cs_Currency = ''THB''\<rparr>,
             DoCreateCharge
               \<lparr>cc_Amount = 10000, cc_Currency = ''THB'', cc_Card = [], cc_Source = ''src_1'',
                cc_ReturnURI = ''https://example.com/return'', cc_Description = [],
                cc_Metadata = Some [(''user_id'', JString ''1'')]\<rparr>])"
    by (simp add: Dispatch_def sample_handler_def sample_request_def sample_client_def
        PaymentHandler_processInternetBanking_def createCharge_def user_metadata_def
        FormatUint.simps digit_char_def Let_def)
  have b: "ctx_BodyParser (ctx_of sample_request) = Inr sample_request"
    by (simp add: ctx_of_def)
  have a: "0 < req_Amount sample_request" "req_Currency sample_request \<noteq> []"
    by (simp_all add: sample_request_def)
  have e: "db_Create_Error failing_DB = Some ''connection refused''"
    by (simp add: failing_DB_def)
  from C7_response_ignores_ledger_failure
      [OF b a d, where d = failing_DB and e = "''connection refused''" and w = sample_world] e a
  show ?thesis by (simp add: sample_world_def)
qed

section \<open>The insert-or-update keeps one row per charge id\<close>

lemma Create_OnConflict_frame [simp]:
  "users (Create_OnConflict now t w) = users w"
  "calls (Create_OnConflict now t w) = calls w"
  "logs (Create_OnConflict now t w) = logs w"
  by (simp_all add: Create_OnConflict_def)

lemma Create_OnConflict_ids:
  "map tx_ChargeID (transactions (Create_OnConflict now t w)) =
     (if tx_ChargeID t \<in> set (map tx_ChargeID (transactions w))
      then map tx_ChargeID (transactions w)
      else map tx_ChargeID (transactions w) @ [tx_ChargeID t])"
proof -
  have "map (tx_ChargeID \<circ> (\<lambda>r. if tx_ChargeID r = c then upd r else r)) rows =
        map tx_ChargeID rows"
    if "\<And>r. tx_ChargeID (upd r) = tx_ChargeID r" for c upd and rows :: "Transaction list"
    using that by (induction rows) simp_all
  then show ?thesis
    by (simp add: Create_OnConflict_def)
qed

lemma Create_OnConflict_distinct:
  assumes "distinct (map tx_ChargeID (transactions w))"
  shows "distinct (map tx_ChargeID (transactions (Create_OnConflict now t w)))"
  using assms by (simp add: Create_OnConflict_ids)

lemma Create_OnConflict_present:
  "tx_ChargeID t \<in> set (map tx_ChargeID (transactions (Create_OnConflict now t w)))"
  by (simp add: Create_OnConflict_ids)

lemma single_row:
  "distinct (map f xs) \<Longrightarrow> c \<in> set (map f xs) \<Longrightarrow> \<exists>x. filter (\<lambda>x. f x = c) xs = [x]"
proof (induction xs)
  case Nil
  then show ?case by simp
next
  case (Cons a xs)
  show ?case
  proof (cases "f a = c")
    case True
    with Cons.prems have "filter (\<lambda>x. f x = c) xs = []"
      by (auto simp: filter_empty_conv image_iff)
    with True show ?thesis by simp
  next
    case False
    with Cons show ?thesis by auto
  qed
qed

lemma Create_OnConflict_row:
  assumes "r \<in> set (transactions (Create_OnConflict now t w))"
    and "tx_ChargeID r = tx_ChargeID t"
  shows "tx_Status r = tx_Status t \<and> tx_FailureCode r = tx_FailureCode t \<and>
         tx_FailureMessage r = tx_FailureMessage t \<and>
         tx_AmountSatang r = tx_AmountSatang t \<and> tx_Currency r = tx_Currency t \<and>
         tx_Channel r = tx_Channel t \<and> tx_RawPayload r = tx_RawPayload t \<and>
         tx_Meta r = tx_Meta t \<and> tx_UserID r = tx_UserID t \<and> tx_UpdatedAt r = now"
  using assms
  by (auto simp: Create_OnConflict_def image_iff split: if_splits)


lemma Update_balance_frame [simp]:
  "transactions (Update_balance u a w) = transactions w"
  "calls (Update_balance u a w) = calls w"
  "logs (Update_balance u a w) = logs w"
  by (simp_all add: Update_balance_def split: option.splits)

lemma upsert_transactions:
  "transactions (snd (upsertTransactionFromCharge h charge userID w)) =
     (case charge of
        None \<Rightarrow> transactions w
      | Some ch \<Rightarrow>
          (case db_Create_Error (DB h) of
             Some e \<Rightarrow> transactions w
           | None \<Rightarrow>
               transactions (Create_OnConflict (db_Now (DB h)) (snapshot_row ch userID) w)))"
  by (simp add: upsertTransactionFromCharge_def snapshot_row_def Let_def split: option.splits)

lemma upsert_distinct:
  assumes "distinct (map tx_ChargeID (transactions w))"
  shows "distinct (map tx_ChargeID
           (transactions (snd (upsertTransactionFromCharge h charge userID w))))"
  using assms
  by (simp add: upsert_transactions Create_OnConflict_distinct split: option.splits)

lemma upserts_distinct:
  "distinct (map tx_ChargeID (transactions w)) \<Longrightarrow>
   distinct (map tx_ChargeID (transactions (upserts obs w)))"
  by (induction obs arbitrary: w) (auto simp: upsert_distinct)

lemma upsert_failed:
  "db_Create_Error (DB h) = Some e \<Longrightarrow>
   upsertTransactionFromCharge h (Some ch) userID w = (Some (StorageError e), w)"
  by (simp add: upsertTransactionFromCharge_def Let_def)

lemma upsert_stored:
  assumes "db_Create_Error (DB h) = None"
    and "distinct (map tx_ChargeID (transactions w))"
  shows "stored ch (snd (upsertTransactionFromCharge h (Some ch) userID w))"
proof -
  let ?w' = "snd (upsertTransactionFromCharge h (Some ch) userID w)"
  define t where "t = snapshot_row ch userID"
  have t: "transactions ?w' = transactions (Create_OnConflict (db_Now (DB h)) t w)"
    "tx_ChargeID t = ch_ID ch" "tx_Status t = ch_Status ch"
    "tx_FailureCode t = ch_FailureCode ch" "tx_FailureMessage t = ch_FailureMessage ch"
    "tx_AmountSatang t = ch_Amount ch" "tx_Currency t = ch_Currency ch"
    "tx_Channel t = determineChannel (Some ch)" "tx_RawPayload t = marshal_charge ch"
    "tx_Meta t = ch_Metadata ch"
    using assms(1) by (simp_all add: upsert_transactions t_def snapshot_row_def)
  have d: "distinct (map tx_ChargeID (transactions ?w'))"
    using assms(2) by (rule upsert_distinct)
  have p: "ch_ID ch \<in> set (map tx_ChargeID (transactions ?w'))"
    using Create_OnConflict_present [of t "db_Now (DB h)" w] t(1,2) by simp
  from single_row [OF d p] obtain row where row: "rows_of (ch_ID ch) ?w' = [row]"
    by (auto simp: rows_of_def)
  then have "row \<in> set (filter (\<lambda>r. tx_ChargeID r = ch_ID ch) (transactions ?w'))"
    by (simp add: rows_of_def)
  then have r: "row \<in> set (transactions (Create_OnConflict (db_Now (DB h)) t w))"
    "tx_ChargeID row = tx_ChargeID t"
    using t(1,2) by simp_all
  from Create_OnConflict_row [OF r] r(2) t have "mirrors row ch"
    by (simp add: mirrors_def)
  with row show ?thesis by (auto simp: stored_def)
qed

lemma upserts_stored:
  assumes "distinct (map tx_ChargeID (transactions w))"
    and "stored ch w \<or> (\<exists>(h, u) \<in> set hs. db_Create_Error (DB h) = None)"
  shows "stored ch (upserts (map (\<lambda>(h, u). (h, Some ch, u)) hs) w)"
  using assms
proof (induction hs arbitrary: w)
  case Nil
  then show ?case by simp
next
  case (Cons x hs)
  obtain h u where x: "x = (h, u)" by (cases x)
  let ?w' = "snd (upsertTransactionFromCharge h (Some ch) u w)"
  have d: "distinct (map tx_ChargeID (transactions ?w'))"
    using Cons.prems(1) by (rule upsert_distinct)
  have "stored ch ?w' \<or> (\<exists>(h, u) \<in> set hs. db_Create_Error (DB h) = None)"
  proof (cases "db_Create_Error (DB h)")
    case None
    then show ?thesis using upsert_stored [OF None Cons.prems(1)] by simp
  next
    case (Some e)
    then show ?thesis using Cons.prems(2) x by (auto simp: upsert_failed)
  qed
  from Cons.IH [OF d this] show ?case by (simp add: x)
qed

text \<open>
  C2. From a ledger in which no two rows share a charge id, no sequence of upserts
  (any charges, any storage outcomes) produces two rows with the same charge id. When
  one snapshot is upserted any number of times and at least one write is accepted by
  the storage engine, the ledger holds exactly one row with the snapshot's charge id,
  and its status, failure code and message, amount, currency, channel, raw payload and
  metadata are the snapshot's.
\<close>

theorem C2_upsert_idempotent:
  assumes "distinct (map tx_ChargeID (transactions w))"
  shows "distinct (map tx_ChargeID (transactions (upserts obs w))) \<and>
         ((\<exists>(h, u) \<in> set hs. db_Create_Error (DB h) = None) \<longrightarrow>
          (\<exists>row. rows_of (ch_ID ch) (upserts (map (\<lambda>(h, u). (h, Some ch, u)) hs) w) = [row] \<and>
                 mirrors row ch))"
  using upserts_distinct [OF assms, of obs] upserts_stored [OF assms, of ch hs]
  by (auto simp: stored_def)

theorem C2_upsert_idempotent_witness:
  "distinct (map tx_ChargeID (transactions sample_world)) \<and>
   db_Create_Error (DB sample_handler) = None \<and>
   distinct (map tx_ChargeID (transactions
     (upserts [(sample_handler, Some sample_charge, None),
               (sample_handler\<lparr>DB := failing_DB\<rparr>, Some sample_charge, None),
               (second_delivery_handler, Some sample_charge, Some 1)] sample_world))) \<and>
   (\<exists>row. rows_of (ch_ID sample_charge)
            (upserts [(sample_handler, Some sample_charge, None),
                      (sample_handler\<lparr>DB := failing_DB\<rparr>, Some sample_charge, None),
                      (second_delivery_handler, Some sample_charge, Some 1)] sample_world)
            = [row] \<and> mirrors row sample_charge) \<and>
   transactions
     (upserts [(sample_handler, Some sample_charge, None),
               (sample_handler\<lparr>DB := failing_DB\<rparr>, Some sample_charge, None),
               (second_delivery_handler, Some sample_charge, Some 1)] sample_world) =
     [\<lparr>tx_ID = 1, tx_CreatedAt = 7, tx_UpdatedAt = 9, tx_DeletedAt = None, tx_UserID = Some 1,
       tx_ChargeID = ''chrg_1'', tx_AmountSatang = 5000, tx_Currency = ''THB'',
       tx_Channel = ''card'', tx_Status = ''successful'', tx_FailureCode = None,
       tx_FailureMessage = None, tx_RawPayload = Some sample_charge,
       tx_Meta = Some [(''user_id'', JString ''1'')]\<rparr>]"
proof -
  have d: "distinct (map tx_ChargeID (transactions sample_world))"
    by (simp add: sample_world_def)
  have ok: "db_Create_Error (DB sample_handler) = None"
    by (simp add: sample_handler_def)
  have rows: "transactions
     (upserts [(sample_handler, Some sample_charge, None),
               (sample_handler\<lparr>DB := failing_DB\<rparr>, Some sample_charge, None),
               (second_delivery_handler, Some sample_charge, Some 1)] sample_world) =
     [\<lparr>tx_ID = 1, tx_CreatedAt = 7, tx_UpdatedAt = 9, tx_DeletedAt = None, tx_UserID = Some 1,
       tx_ChargeID = ''chrg_1'', tx_AmountSatang = 5000, tx_Currency = ''THB'',
       tx_Channel = ''card'', tx_Status = ''successful'', tx_FailureCode = None,
       tx_FailureMessage = None, tx_RawPayload = Some sample_charge,
       tx_Meta = Some [(''user_id'', JString ''1'')]\<rparr>]"
    by (simp add: sample_handler_def second_delivery_handler_def failing_DB_def
        sample_charge_def sample_world_def upsertTransactionFromCharge_def Let_def
        extractUserIDFromCharge_def determineChannel_def marshal_charge_def
        Create_OnConflict_def Update_balance_def ParseUint_def digit_val_def)
  from C2_upsert_idempotent
    [OF d, where ch = sample_charge
       and obs = "[(sample_handler, Some sample_charge, None),
                   (sample_handler\<lparr>DB := failing_DB\<rparr>, Some sample_charge, None),
                   (second_delivery_handler, Some sample_charge, Some 1)]"
       and hs = "[(sample_handler, None), (sample_handler\<lparr>DB := failing_DB\<rparr>, None),
                  (second_delivery_handler, Some 1)]"]
    d ok rows
  show ?thesis by simp
qed

section \<open>The balance credit\<close>

text \<open>
  Every observation of a successful charge with a resolved user credits the balance:
  the credit does not look at the status stored before.
\<close>

lemma credit_on_every_observation:
  assumes "ch_Status ch = ''successful''"
    and "extractUserIDFromCharge (Some ch) userID = Some u"
    and "db_Create_Error (DB h) = None" and "db_Update_Error (DB h) = None"
    and "users w u = Some b"
  shows "users (snd (upsertTransactionFromCharge h (Some ch) userID w)) u =
           Some (b + of_int (ch_Amount ch) / 100)"
  using assms
  by (simp add: upsertTransactionFromCharge_def Let_def Update_balance_def)

text \<open>
  C1. The claim asks for at most one credit per charge. The code credits on every
  successful observation: with user 1 at balance 0 and the successful charge
  \<^verbatim>\<open>chrg_1\<close> of 5000 satang, one upsert leaves the balance at 50 and a second upsert of the
  same snapshot leaves it at 100; the same holds for two deliveries of one event
  webhook.
\<close>

theorem C1_duplicate_delivery_credits_twice:
  "users (upserts [(sample_handler, Some sample_charge, None)] sample_world) 1 = Some 50 \<and>
   users (upserts [(sample_handler, Some sample_charge, None),
                   (sample_handler, Some sample_charge, None)] sample_world) 1 = Some 100 \<and>
   users (snd (HandleWebhook sample_handler event_body sample_world)) 1 = Some 50 \<and>
   users (snd (HandleWebhook sample_handler event_body
            (snd (HandleWebhook sample_handler event_body sample_world)))) 1 = Some 100"
  by (simp add: sample_handler_def sample_charge_def sample_client_def sample_event_def
      event_body_def
      sample_world_def upsertTransactionFromCharge_def Let_def extractUserIDFromCharge_def
      determineChannel_def marshal_charge_def Create_OnConflict_def Update_balance_def
      ParseUint_def digit_val_def HandleWebhook_def retrieve_and_upsert_def unmarshal_ref_def
      equal_fold_def ascii_lower_def
      json_Marshal_def)

text \<open>
  C9. For a successful charge with a resolved user, when the ledger write succeeds and
  the balance update fails, \<^verbatim>\<open>upsertTransactionFromCharge\<close> returns no error: the balances
  are unchanged and the failure appears only as a log line. A charge-shaped webhook for
  that charge is therefore answered with status 200.
\<close>

theorem C9_balance_failure_is_swallowed:
  assumes "ch_Status ch = ''successful''"
    and "extractUserIDFromCharge (Some ch) userID = Some u"
    and "db_Create_Error (DB h) = None"
    and "db_Update_Error (DB h) = Some e"
  shows "fst (upsertTransactionFromCharge h (Some ch) userID w) = None \<and>
         users (snd (upsertTransactionFromCharge h (Some ch) userID w)) = users w \<and>
         logs (snd (upsertTransactionFromCharge h (Some ch) userID w)) =
           logs w @ [Log_Failed_to_update_user_balance e] \<and>
         (userID = None \<and> RetrieveCharge (Client h) chargeID = Inr ch \<and> chargeID \<noteq> [] \<longrightarrow>
            status (fst (HandleWebhook h
              (Json (JObject [(''object'', JString ''charge''), (''id'', JString chargeID)])) w))
              = 200)"
  using assms
  by (auto simp: upsertTransactionFromCharge_def Let_def HandleWebhook_def
      retrieve_and_upsert_def unmarshal_ref_def equal_fold_def ascii_lower_def
      split: prod.splits)

theorem C9_balance_failure_is_swallowed_witness:
  "ch_Status sample_charge = ''successful'' \<and>
   extractUserIDFromCharge (Some sample_charge) None = Some 1 \<and>
   db_Create_Error (DB balance_failing_handler) = None \<and>
   db_Update_Error (DB balance_failing_handler) = Some ''deadlock'' \<and>
   fst (upsertTransactionFromCharge balance_failing_handler (Some sample_charge) None
          sample_world) = None \<and>
   users (snd (upsertTransactionFromCharge balance_failing_handler (Some sample_charge) None
          sample_world)) 1 = Some 0 \<and>
   logs (snd (upsertTransactionFromCharge balance_failing_handler (Some sample_charge) None
          sample_world)) = [Log_Failed_to_update_user_balance ''deadlock''] \<and>
   status (fst (HandleWebhook balance_failing_handler charge_body sample_world)) = 200"
proof -
  have a: "ch_Status sample_charge = ''successful''"
    by (simp add: sample_charge_def)
  have b: "extractUserIDFromCharge (Some sample_charge) None = Some 1"
    by (simp add: sample_charge_def extractUserIDFromCharge_def ParseUint_def digit_val_def)
  have c: "db_Create_Error (DB balance_failing_handler) = None"
    "db_Update_Error (DB balance_failing_handler) = Some ''deadlock''"
    by (simp_all add: balance_failing_handler_def)
  have r: "RetrieveCharge (Client balance_failing_handler) ''chrg_1'' = Inr sample_charge"
    by (simp add: balance_failing_handler_def sample_client_def)
  from C9_balance_failure_is_swallowed
    [OF a b c, where w = sample_world and chargeID = "''chrg_1''"] a b c r
  show ?thesis by (simp add: charge_body_def sample_world_def)
qed

section \<open>The user id travels in the metadata\<close>

lemma user_metadata_user_id:
  "req_UserID req = Some u \<Longrightarrow>
   \<exists>m. user_metadata req = Some m \<and> map_of m ''user_id'' = Some (JString (FormatUint u))"
  by (simp add: user_metadata_def update_conv')

lemma createCharge_ops:
  "createCharge cl op = (r, ops) \<Longrightarrow> ops = [DoCreateCharge op]"
  by (auto simp: createCharge_def split: sum.splits)

lemma tokenize_and_charge_ops:
  assumes "tokenize_and_charge cl req crd md = (r, ops)"
    and "md = Some m" and "map_of m ''user_id'' = Some (JString (FormatUint u))"
  shows "list_all (carries_user_id u) ops \<and> (\<forall>ch. r = Inr ch \<longrightarrow> charge_submitted ops)"
  using assms
  by (auto simp: tokenize_and_charge_def Let_def createCharge_def carries_user_id_def
      charge_submitted_def split: sum.splits prod.splits)

text \<open>
  An id in the request body reaches the gateway: in each of the three process functions
  every charge creation handed to the gateway has the id, in decimal, under the key
  \<^verbatim>\<open>user_id\<close> of its metadata, and whenever the function returns a charge such a creation
  was handed to the gateway.
\<close>

lemma body_user_id_in_metadata:
  assumes "req_UserID req = Some u"
    and "process \<in> {PaymentHandler_processCreditCard, PaymentHandler_processPromptPay,
                    PaymentHandler_processInternetBanking}"
  shows "list_all (carries_user_id u) (snd (process cl req)) \<and>
         (\<forall>ch. fst (process cl req) = Inr ch \<longrightarrow> charge_submitted (snd (process cl req)))"
proof -
  from user_metadata_user_id [OF assms(1)] obtain m where
    m: "user_metadata req = Some m" "map_of m ''user_id'' = Some (JString (FormatUint u))"
    by blast
  have card: ?thesis if "process = PaymentHandler_processCreditCard"
  proof (cases "req_Token req \<noteq> [] \<or> req_Card req = None")
    case True
    then show ?thesis using m that
      by (auto simp: PaymentHandler_processCreditCard_def Let_def createCharge_def
          carries_user_id_def charge_submitted_def split: sum.splits option.splits)
  next
    case False
    then obtain crd where c: "req_Token req = []" "req_Card req = Some crd" by auto
    obtain r ops where t: "tokenize_and_charge cl req crd (Some m) = (r, ops)"
      by (cases "tokenize_and_charge cl req crd (Some m)")
    from tokenize_and_charge_ops [OF t refl m(2)] c t m(1) that show ?thesis
      by (simp add: PaymentHandler_processCreditCard_def Let_def)
  qed
  have pp: ?thesis if "process = PaymentHandler_processPromptPay"
    using m that
    by (auto simp: PaymentHandler_processPromptPay_def Let_def createCharge_def
        carries_user_id_def charge_submitted_def split: sum.splits)
  have ib: ?thesis if "process = PaymentHandler_processInternetBanking"
    using m that
    by (auto simp: PaymentHandler_processInternetBanking_def Let_def createCharge_def
        carries_user_id_def charge_submitted_def split: sum.splits)
  from assms(2) card pp ib show ?thesis by blast
qed

text \<open>
  The operations each path issues once its preconditions hold: a card token is charged
  at once, the other two paths create their source first; the charge creation carries
  the metadata with the id.
\<close>

lemma card_token_submits_user_id:
  assumes "req_UserID req = Some u" and "req_Token req \<noteq> []"
  shows "\<exists>m. map_of m ''user_id'' = Some (JString (FormatUint u)) \<and>
           snd (PaymentHandler_processCreditCard cl req) =
             [DoCreateCharge
                \<lparr>cc_Amount = req_Amount req, cc_Currency = req_Currency req,
                 cc_Card = req_Token req, cc_Source = [], cc_ReturnURI = req_ReturnURI req,
                 cc_Description = req_Description req, cc_Metadata = Some m\<rparr>]"
  using user_metadata_user_id [OF assms(1)] assms(2)
  by (auto simp: PaymentHandler_processCreditCard_def Let_def createCharge_def
      split: sum.splits)

lemma promptpay_submits_user_id:
  assumes "req_UserID req = Some u"
    and "CreateSource cl \<lparr>cs_Type = ''promptpay'', cs_Amount = req_Amount req,
                          cs_Currency = req_Currency req\<rparr> = Inr src"
  shows "\<exists>m. map_of m ''user_id'' = Some (JString (FormatUint u)) \<and>
           snd (PaymentHandler_processPromptPay cl req) =
             [DoCreateSource \<lparr>cs_Type = ''promptpay'', cs_Amount = req_Amount req,
                              cs_Currency = req_Currency req\<rparr>,
              DoCreateCharge
                \<lparr>cc_Amount = req_Amount req, cc_Currency = req_Currency req,
                 cc_Card = [], cc_Source = src_ID src, cc_ReturnURI = [],
                 cc_Description = req_Description req, cc_Metadata = Some m\<rparr>]"
  using user_metadata_user_id [OF assms(1)] assms(2)
  by (auto simp: PaymentHandler_processPromptPay_def Let_def createCharge_def
      split: sum.splits)

lemma internet_banking_submits_user_id:
  assumes "req_UserID req = Some u" and "req_Bank req \<noteq> []" and "req_ReturnURI req \<noteq> []"
    and "CreateSource cl \<lparr>cs_Type = ''internet_banking_'' @ req_Bank req,
                          cs_Amount = req_Amount req, cs_Currency = req_Currency req\<rparr> = Inr src"
  shows "\<exists>m. map_of m ''user_id'' = Some (JString (FormatUint u)) \<and>
           snd (PaymentHandler_processInternetBanking cl req) =
             [DoCreateSource \<lparr>cs_Type = ''internet_banking_'' @ req_Bank req,
                              cs_Amount = req_Amount req, cs_Currency = req_Currency req\<rparr>,
              DoCreateCharge
                \<lparr>cc_Amount = req_Amount req, cc_Currency = req_Currency req,
                 cc_Card = [], cc_Source = src_ID src, cc_ReturnURI = req_ReturnURI req,
                 cc_Description = req_Description req, cc_Metadata = Some m\<rparr>]"
  using user_metadata_user_id [OF assms(1)] assms(2-4)
  by (auto simp: PaymentHandler_processInternetBanking_def Let_def createCharge_def
      split: sum.splits)

text \<open>
  The process functions read the user id from the request body alone. Without one the
  metadata they submit is the request's own, on all three paths.
\<close>

lemma no_body_user_id_metadata_unchanged:
  "req_UserID req = None \<Longrightarrow> user_metadata req = req_Metadata req"
  by (simp add: user_metadata_def)

text \<open>
  C8. The claim asks that every caller-supplied user id be attached to the metadata
  before the charge is submitted. \<^verbatim>\<open>CreateCharge\<close> also accepts the id from the
  \<^verbatim>\<open>X-User-ID\<close> header and the \<^verbatim>\<open>user_id\<close> query parameter, and the process functions
  never see that id. For the PromptPay request sent with \<^verbatim>\<open>X-User-ID: 1\<close> and no id in the
  body, the handler resolves user 1 and stores it with the ledger row, but the charge
  is submitted with no metadata; the created charge echoes none, so reconciliation
  resolves no user from its snapshot.
\<close>

theorem C8_header_user_id_not_attached:
  "req_UserID header_request = None \<and>
   getUserIDFromRequest header_ctx header_request = Some 1 \<and>
   fst (CreateCharge sample_handler header_ctx sample_world) =
     \<lparr>status = 200, content = JSONCharge header_charge\<rparr> \<and>
   calls (snd (CreateCharge sample_handler header_ctx sample_world)) =
     [DoCreateSource \<lparr>cs_Type = ''promptpay'', cs_Amount = 10000, cs_Currency = ''THB''\<rparr>,
      DoCreateCharge
        \<lparr>cc_Amount = 10000, cc_Currency = ''THB'', cc_Card = [], cc_Source = ''src_1'',
         cc_ReturnURI = [], cc_Description = [], cc_Metadata = None\<rparr>] \<and>
   map tx_UserID (transactions (snd (CreateCharge sample_handler header_ctx sample_world))) =
     [Some 1] \<and>
   extractUserIDFromCharge (Some header_charge) None = None"
  by (simp add: header_request_def header_ctx_def header_charge_def sample_request_def
      sample_handler_def sample_client_def sample_world_def getUserIDFromRequest_def
      ParseUint_def digit_val_def CreateCharge_def Dispatch_def
      PaymentHandler_processPromptPay_def user_metadata_def createCharge_def
      upsertTransactionFromCharge_def extractUserIDFromCharge_def determineChannel_def
      marshal_charge_def Create_OnConflict_def Let_def)

text \<open>
  Reconciliation reads the id back from a snapshot that echoes the metadata, as long as
  the id is below \<open>2 ^ 32\<close>: \<^verbatim>\<open>extractUserIDFromCharge\<close> parses with a bit size of 32.
\<close>

lemma digit_val_digit_char: "d < 10 \<Longrightarrow> digit_val (digit_char d) = Some d"
proof -
  assume "d < 10"
  then have "d \<in> {0, 1, 2, 3, 4, 5, 6, 7, 8, 9}" by auto
  then show ?thesis
    by (auto simp: digit_val_def digit_char_def)
qed

lemma parse_digits_append:
  "parse_digits acc (xs @ ys) =
     (case parse_digits acc xs of None \<Rightarrow> None | Some n \<Rightarrow> parse_digits n ys)"
  by (induction xs arbitrary: acc) (auto split: option.splits)

lemma parse_digits_FormatUint: "parse_digits 0 (FormatUint n) = Some n"
proof (induction n rule: FormatUint.induct)
  case (1 n)
  show ?case
  proof (cases "n < 10")
    case True
    then show ?thesis
      by (subst FormatUint.simps) (simp add: digit_val_digit_char)
  next
    case False
    with 1 have "parse_digits 0 (FormatUint (n div 10)) = Some (n div 10)" by simp
    with False show ?thesis
      by (subst FormatUint.simps) (simp add: parse_digits_append digit_val_digit_char)
  qed
qed

lemma FormatUint_nonempty: "FormatUint n \<noteq> []"
  by (subst FormatUint.simps) simp

lemma ParseUint_FormatUint: "n < 2 ^ b \<Longrightarrow> ParseUint (FormatUint n) b = Some n"
  by (simp add: ParseUint_def FormatUint_nonempty parse_digits_FormatUint)

lemma user_id_recovered:
  assumes "u < 2 ^ 32" and "ch_Metadata ch = Some m"
    and "map_of m ''user_id'' = Some (JString (FormatUint u))"
  shows "extractUserIDFromCharge (Some ch) None = Some u"
  using assms by (simp add: extractUserIDFromCharge_def ParseUint_FormatUint)

section \<open>Webhooks\<close>

lemmas scenario_defs =
  sample_handler_def sample_charge_def sample_client_def sample_event_def sample_world_def
  event_body_def charge_body_def refund_body_def webhook_request_def create_event_def
  refund_event_def client_returning_def charge_unreachable_client_def handler_with_def
  webhook_handler_with_def event_members_def forged_event_members_def unreachable_client_def

lemmas handler_defs =
  HandleWebhook_def WebhookHandler_HandleWebhook_def retrieve_and_upsert_def
  upsertTransactionFromCharge_def extractUserIDFromCharge_def determineChannel_def
  marshal_charge_def Create_OnConflict_def Update_balance_def ParseUint_def digit_val_def
  unmarshal_ref_def unmarshal_ID_def equal_fold_def ascii_lower_def json_Marshal_def
  charge_event_keys_def Let_def


text \<open>A member spelled \<^verbatim>\<open>ID\<close> fills the field tagged \<^verbatim>\<open>id\<close>, and the later member wins.\<close>

lemma unmarshal_ID_any_case:
  "unmarshal_ID (Json (JObject [(''id'', JString ''chrg_1''), (''ID'', JString ''chrg_2'')])) =
     Some ''chrg_2''"
  by (simp add: unmarshal_ID_def equal_fold_def ascii_lower_def)





lemma upsert_calls [simp]:
  "calls (snd (upsertTransactionFromCharge h charge userID w)) = calls w"
  by (simp add: upsertTransactionFromCharge_def Let_def split: option.splits)

lemma upsert_error_unchanged:
  "upsertTransactionFromCharge h charge userID w = (Some err, w') \<Longrightarrow> w' = w"
  by (auto simp: upsertTransactionFromCharge_def Let_def split: option.splits if_splits)




lemma upsert_calls_eq:
  "upsertTransactionFromCharge h charge userID w = (r, w') \<Longrightarrow> calls w' = calls w"
  using upsert_calls [of h charge userID w] by simp

lemma retrieve_and_upsert_calls:
  "calls (snd (retrieve_and_upsert h chargeID w)) = calls w @ [DoRetrieveCharge chargeID]"
  by (auto simp: retrieve_and_upsert_def Let_def split: sum.splits prod.splits option.splits
      dest: upsert_calls_eq)

lemma retrieve_and_upsert_failed:
  "RetrieveCharge (Client h) chargeID = Inl e \<Longrightarrow>
   retrieve_and_upsert h chargeID w =
     (\<lparr>status = 500, content = NoBody\<rparr>,
      w\<lparr>calls := calls w @ [DoRetrieveCharge chargeID],
        logs := logs w @ [Log_webhook_retrieve_charge_failed chargeID e]\<rparr>)"
  by (simp add: retrieve_and_upsert_def Let_def)

lemma HandleWebhook_gateway_failure:
  assumes "\<exists>op \<in> set (issued w (snd (HandleWebhook h body w))). gateway_fails (Client h) op"
  shows "status (fst (HandleWebhook h body w)) = 500 \<and>
         transactions (snd (HandleWebhook h body w)) = transactions w \<and>
         users (snd (HandleWebhook h body w)) = users w"
proof (cases "unmarshal_ref body")
  case None
  with assms show ?thesis by (simp add: HandleWebhook_def issued_def)
next
  case (Some envelope)
  show ?thesis
  proof (cases "ref_ID envelope = []")
    case True
    with Some assms show ?thesis by (simp add: HandleWebhook_def issued_def)
  next
    case id: False
    have direct: "status (fst (retrieve_and_upsert h c w0)) = 500 \<and>
                  transactions (snd (retrieve_and_upsert h c w0)) = transactions w0 \<and>
                  users (snd (retrieve_and_upsert h c w0)) = users w0"
      if "isl (RetrieveCharge (Client h) c)" for c w0
      using that by (cases "RetrieveCharge (Client h) c") (simp_all add: retrieve_and_upsert_failed)
    consider (event) "ref_Object envelope = ''event''"
      | (charge) "ref_Object envelope = ''charge''"
      | (other) "ref_Object envelope \<noteq> ''event''" "ref_Object envelope \<noteq> ''charge''"
      by blast
    then show ?thesis
    proof cases
      case charge
      then have hw: "HandleWebhook h body w = retrieve_and_upsert h (ref_ID envelope) w"
        using Some id by (simp add: HandleWebhook_def)
      with assms have "isl (RetrieveCharge (Client h) (ref_ID envelope))"
        by (simp add: issued_def retrieve_and_upsert_calls)
      from direct [OF this] hw show ?thesis by simp
    next
      case other
      with Some id assms show ?thesis by (simp add: HandleWebhook_def issued_def)
    next
      case event
      let ?w0 = "w\<lparr>calls := calls w @ [DoRetrieveEvent (ref_ID envelope)]\<rparr>"
      show ?thesis
      proof (cases "RetrieveEvent (Client h) (ref_ID envelope)")
        case (Inl e)
        with Some id event show ?thesis by (simp add: HandleWebhook_def Let_def)
      next
        case (Inr ev)
        show ?thesis
        proof (cases "json_Marshal (ev_Data ev)")
          case (Inl e)
          with Some id event Inr show ?thesis by (simp add: HandleWebhook_def Let_def)
        next
          case raw: (Inr raw)
          show ?thesis
          proof (cases "\<exists>d. unmarshal_ref raw = Some d \<and> ref_Object d = ''charge'' \<and> ref_ID d \<noteq> []")
            case False
            then have "snd (HandleWebhook h body w) = ?w0"
              using Some id event Inr raw
              by (auto simp: HandleWebhook_def Let_def split: option.splits)
            with assms Inr show ?thesis by (simp add: issued_def)
          next
            case True
            then obtain d where d: "unmarshal_ref raw = Some d" "ref_Object d = ''charge''"
              "ref_ID d \<noteq> []" by blast
            then have hw: "HandleWebhook h body w = retrieve_and_upsert h (ref_ID d) ?w0"
              using Some id event Inr raw by (simp add: HandleWebhook_def Let_def)
            with assms Inr have "isl (RetrieveCharge (Client h) (ref_ID d))"
              by (simp add: issued_def retrieve_and_upsert_calls)
            from direct [OF this] hw show ?thesis by simp
          qed
        qed
      qed
    qed
  qed
qed

lemma WebhookHandler_verification_failure:
  assumes "wr_Method r = ''POST''" and "wr_Body r = Some b" and "unmarshal_ID b = Some i"
    and "i \<noteq> []" and "RetrieveEvent (client wh) i = Inl e"
  shows "WebhookHandler_HandleWebhook wh r w =
           (\<lparr>status = 400, content = Text ''event verification failed''\<rparr>,
            w\<lparr>calls := calls w @ [DoRetrieveEvent i],
              logs := logs w @ [Log_Webhook_event_verification_failed i e]\<rparr>)"
  using assms by (simp add: WebhookHandler_HandleWebhook_def Let_def)

lemma WebhookHandler_ignored:
  assumes "wr_Method r = ''POST''" and "wr_Body r = Some b" and "unmarshal_ID b = Some i"
    and "i \<noteq> []" and "RetrieveEvent (client wh) i = Inr ev"
    and "ev_Key ev \<notin> set charge_event_keys \<or> \<not> charge_shaped (ev_Data ev)"
  shows "status (fst (WebhookHandler_HandleWebhook wh r w)) = 200 \<and>
         calls (snd (WebhookHandler_HandleWebhook wh r w)) = calls w @ [DoRetrieveEvent i] \<and>
         transactions (snd (WebhookHandler_HandleWebhook wh r w)) = transactions w \<and>
         users (snd (WebhookHandler_HandleWebhook wh r w)) = users w"
  using assms
  by (auto simp: WebhookHandler_HandleWebhook_def Let_def charge_shaped_def json_Marshal_def
      split: option.splits sum.splits if_splits)

lemma HandleWebhook_ignored:
  assumes "unmarshal_ref body = Some envelope" and "ref_ID envelope \<noteq> []"
    and "ref_Object envelope = ''event''"
    and "RetrieveEvent (Client h) (ref_ID envelope) = Inr ev"
    and "marshalable (ev_Data ev)" and "\<not> charge_shaped (ev_Data ev)"
  shows "HandleWebhook h body w =
           (\<lparr>status = 200, content = NoBody\<rparr>,
            w\<lparr>calls := calls w @ [DoRetrieveEvent (ref_ID envelope)]\<rparr>)"
  using assms
  by (auto simp: HandleWebhook_def Let_def charge_shaped_def json_Marshal_def
      split: option.splits)




text \<open>
  C4, as amended. In \<^verbatim>\<open>PaymentHandler.HandleWebhook\<close>, when a gateway operation issued
  by the request (\<^verbatim>\<open>RetrieveEvent\<close> or \<^verbatim>\<open>RetrieveCharge\<close>) fails, the answer is status 500
  and neither the ledger nor the balances change. In \<^verbatim>\<open>WebhookHandler.HandleWebhook\<close>, a
  failing \<^verbatim>\<open>RetrieveEvent\<close> is answered with status 400 and the upserter is not called.
\<close>

theorem C4_gateway_failure_responses:
  assumes "\<exists>op \<in> set (issued w (snd (HandleWebhook h body w))). gateway_fails (Client h) op"
    and "wr_Method r = ''POST''" and "wr_Body r = Some b" and "unmarshal_ID b = Some i"
    and "i \<noteq> []" and "RetrieveEvent (client wh) i = Inl e"
  shows "status (fst (HandleWebhook h body w)) = 500 \<and>
         transactions (snd (HandleWebhook h body w)) = transactions w \<and>
         users (snd (HandleWebhook h body w)) = users w \<and>
         WebhookHandler_HandleWebhook wh r w' =
           (\<lparr>status = 400, content = Text ''event verification failed''\<rparr>,
            w'\<lparr>calls := calls w' @ [DoRetrieveEvent i],
               logs := logs w' @ [Log_Webhook_event_verification_failed i e]\<rparr>)"
  using HandleWebhook_gateway_failure [OF assms(1)]
    WebhookHandler_verification_failure [OF assms(2-6)]
  by simp

theorem C4_gateway_failure_responses_witness:
  "issued sample_world (snd (HandleWebhook (handler_with charge_unreachable_client) event_body
      sample_world)) = [DoRetrieveEvent ''evt_1'', DoRetrieveCharge ''chrg_1''] \<and>
   gateway_fails (Client (handler_with charge_unreachable_client)) (DoRetrieveCharge ''chrg_1'') \<and>
   status (fst (HandleWebhook (handler_with charge_unreachable_client) event_body sample_world))
     = 500 \<and>
   transactions (snd (HandleWebhook (handler_with charge_unreachable_client) event_body
      sample_world)) = [] \<and>
   RetrieveEvent (client (webhook_handler_with unreachable_client)) ''evt_1'' = Inl ''timeout'' \<and>
   status (fst (WebhookHandler_HandleWebhook (webhook_handler_with unreachable_client)
      webhook_request sample_world)) = 400"
proof -
  have ops: "issued sample_world (snd (HandleWebhook (handler_with charge_unreachable_client)
      event_body sample_world)) = [DoRetrieveEvent ''evt_1'', DoRetrieveCharge ''chrg_1'']"
    by (simp add: issued_def scenario_defs handler_defs)
  have f: "gateway_fails (Client (handler_with charge_unreachable_client))
      (DoRetrieveCharge ''chrg_1'')"
    by (simp add: scenario_defs)
  have ex: "\<exists>op \<in> set (issued sample_world (snd (HandleWebhook
      (handler_with charge_unreachable_client) event_body sample_world))).
      gateway_fails (Client (handler_with charge_unreachable_client)) op"
    using ops f by simp
  have r: "wr_Method webhook_request = ''POST''" "wr_Body webhook_request = Some event_body"
    "unmarshal_ID event_body = Some ''evt_1''" "''evt_1'' \<noteq> []"
    "RetrieveEvent (client (webhook_handler_with unreachable_client)) ''evt_1'' = Inl ''timeout''"
    by (simp_all add: scenario_defs unmarshal_ID_def equal_fold_def ascii_lower_def)
  from C4_gateway_failure_responses [OF ex r, where w' = sample_world] ops f r(5)
  show ?thesis by (simp add: sample_world_def)
qed

text \<open>
  The claim as stated asks for a 5xx answer from both handlers.
  \<^verbatim>\<open>WebhookHandler.HandleWebhook\<close> answers 400 when \<^verbatim>\<open>RetrieveEvent\<close> fails and 200 when
  \<^verbatim>\<open>RetrieveCharge\<close> fails.
\<close>

theorem C4_verification_failure_counterexample:
  "gateway_fails (client (webhook_handler_with unreachable_client)) (DoRetrieveEvent ''evt_1'') \<and>
   calls (snd (WebhookHandler_HandleWebhook (webhook_handler_with unreachable_client)
      webhook_request sample_world)) = [DoRetrieveEvent ''evt_1''] \<and>
   status (fst (WebhookHandler_HandleWebhook (webhook_handler_with unreachable_client)
      webhook_request sample_world)) = 400 \<and>
   gateway_fails (client (webhook_handler_with charge_unreachable_client))
     (DoRetrieveCharge ''chrg_1'') \<and>
   calls (snd (WebhookHandler_HandleWebhook (webhook_handler_with charge_unreachable_client)
      webhook_request sample_world)) = [DoRetrieveEvent ''evt_1'', DoRetrieveCharge ''chrg_1''] \<and>
   status (fst (WebhookHandler_HandleWebhook (webhook_handler_with charge_unreachable_client)
      webhook_request sample_world)) = 200"
  by (simp add: scenario_defs handler_defs)

text \<open>
  C5, as amended. \<^verbatim>\<open>WebhookHandler.HandleWebhook\<close> answers 200 to a verified event whose
  key is outside the allow-list or whose data is not charge-shaped; the only gateway
  operation is \<^verbatim>\<open>RetrieveEvent\<close> and the upserter is not called.
  \<^verbatim>\<open>PaymentHandler.HandleWebhook\<close> has no allow-list: it answers 200 to an event-shaped
  webhook whose verified data is not charge-shaped, with \<^verbatim>\<open>RetrieveEvent\<close> as the only
  gateway operation and the rest of the world unchanged.
\<close>

theorem C5_ignored_events:
  assumes "wr_Method r = ''POST''" and "wr_Body r = Some b" and "unmarshal_ID b = Some i"
    and "i \<noteq> []" and "RetrieveEvent (client wh) i = Inr ev"
    and "ev_Key ev \<notin> set charge_event_keys \<or> \<not> charge_shaped (ev_Data ev)"
    and "unmarshal_ref body = Some envelope" and "ref_ID envelope \<noteq> []"
    and "ref_Object envelope = ''event''"
    and "RetrieveEvent (Client h) (ref_ID envelope) = Inr ev'"
    and "marshalable (ev_Data ev')" and "\<not> charge_shaped (ev_Data ev')"
  shows "status (fst (WebhookHandler_HandleWebhook wh r w)) = 200 \<and>
         calls (snd (WebhookHandler_HandleWebhook wh r w)) = calls w @ [DoRetrieveEvent i] \<and>
         transactions (snd (WebhookHandler_HandleWebhook wh r w)) = transactions w \<and>
         users (snd (WebhookHandler_HandleWebhook wh r w)) = users w \<and>
         HandleWebhook h body w' =
           (\<lparr>status = 200, content = NoBody\<rparr>,
            w'\<lparr>calls := calls w' @ [DoRetrieveEvent (ref_ID envelope)]\<rparr>)"
  using WebhookHandler_ignored [OF assms(1-6)] HandleWebhook_ignored [OF assms(7-12)]
  by simp

theorem C5_ignored_events_witness:
  "ev_Key create_event \<notin> set charge_event_keys \<and>
   status (fst (WebhookHandler_HandleWebhook (webhook_handler_with (client_returning create_event))
      webhook_request sample_world)) = 200 \<and>
   calls (snd (WebhookHandler_HandleWebhook (webhook_handler_with (client_returning create_event))
      webhook_request sample_world)) = [DoRetrieveEvent ''evt_1''] \<and>
   transactions (snd (WebhookHandler_HandleWebhook
      (webhook_handler_with (client_returning create_event)) webhook_request sample_world)) = [] \<and>
   marshalable (ev_Data refund_event) \<and> \<not> charge_shaped (ev_Data refund_event) \<and>
   HandleWebhook (handler_with (client_returning refund_event)) event_body sample_world =
     (\<lparr>status = 200, content = NoBody\<rparr>, sample_world\<lparr>calls := [DoRetrieveEvent ''evt_1'']\<rparr>)"
proof -
  have a: "wr_Method webhook_request = ''POST''" "wr_Body webhook_request = Some event_body"
    "unmarshal_ID event_body = Some ''evt_1''" "''evt_1'' \<noteq> []"
    "RetrieveEvent (client (webhook_handler_with (client_returning create_event))) ''evt_1'' =
       Inr create_event"
    by (simp_all add: scenario_defs unmarshal_ID_def equal_fold_def ascii_lower_def)
  have k: "ev_Key create_event \<notin> set charge_event_keys"
    by (simp add: create_event_def charge_event_keys_def)
  then have k': "ev_Key create_event \<notin> set charge_event_keys \<or>
      \<not> charge_shaped (ev_Data create_event)"
    by simp
  have b: "unmarshal_ref event_body =
      Some \<lparr>ref_ID = ''evt_1'', ref_Object = ''event''\<rparr>"
    "ref_ID \<lparr>ref_ID = ''evt_1'', ref_Object = ''event''\<rparr> \<noteq> []"
    "ref_Object \<lparr>ref_ID = ''evt_1'', ref_Object = ''event''\<rparr> = ''event''"
    "RetrieveEvent (Client (handler_with (client_returning refund_event)))
       (ref_ID \<lparr>ref_ID = ''evt_1'', ref_Object = ''event''\<rparr>) = Inr refund_event"
    "marshalable (ev_Data refund_event)" "\<not> charge_shaped (ev_Data refund_event)"
    by (simp_all add: scenario_defs unmarshal_ref_def charge_shaped_def equal_fold_def
        ascii_lower_def)
  from C5_ignored_events [OF a k' b, where w = sample_world and w' = sample_world] k b(5,6)
  show ?thesis by (simp add: sample_world_def)
qed

text \<open>
  The claim as stated has both handlers ignore a key outside the allow-list.
  \<^verbatim>\<open>PaymentHandler.HandleWebhook\<close> does not read the key: for the verified event
  \<^verbatim>\<open>charge.create\<close> with charge-shaped data it retrieves the charge and writes the ledger.
\<close>

theorem C5_unlisted_key_counterexample:
  "RetrieveEvent (Client (handler_with (client_returning create_event))) ''evt_1'' =
     Inr create_event \<and>
   ev_Key create_event \<notin> set charge_event_keys \<and>
   calls (snd (HandleWebhook (handler_with (client_returning create_event)) event_body
      sample_world)) = [DoRetrieveEvent ''evt_1'', DoRetrieveCharge ''chrg_1''] \<and>
   map tx_ChargeID (transactions (snd (HandleWebhook
      (handler_with (client_returning create_event)) event_body sample_world))) = [''chrg_1''] \<and>
   status (fst (HandleWebhook (handler_with (client_returning create_event)) event_body
      sample_world)) = 200"
  by (simp add: scenario_defs handler_defs)

end
